theory Spec2Isabelle
  imports Complex_Main
begin

section \<open>Data model (types/index.ts)\<close>

text \<open>
  The scene editor works on JavaScript numbers. Every \<open>number\<close> of the source is a
  \<open>real\<close> here, so all statements below are about exact arithmetic; array indices and
  counters that only ever hold natural numbers are \<open>nat\<close>. A JavaScript \<open>Set<string>\<close>
  is an insertion-ordered collection without duplicates and is modelled as a
  \<open>string list\<close>; a \<open>Map<string, _>\<close> built from distinct keys is an association list
  read with \<open>map_of\<close>. Record fields of an element carry the prefix \<open>el_\<close> where the
  source's one-letter names (\<open>x\<close>, \<open>y\<close>, \<open>id\<close>) would capture variables.
\<close>

datatype Tool =
  T_select | T_hand | T_rectangle | T_ellipse | T_diamond
  | T_arrow | T_line | T_freedraw | T_text | T_eraser

type_synonym Point = "real \<times> real"

datatype StrokeStyle = S_solid | S_dashed | S_dotted

datatype ResizeHandle = H_nw | H_n | H_ne | H_e | H_se | H_s | H_sw | H_w

datatype TextAlign = A_left | A_center | A_right

text \<open>
  \<open>ExcalidrawElement\<close> is a union discriminated by \<open>type\<close>; the variant carries the
  fields that only some element types own (\<open>points\<close>, \<open>pressures\<close>, the text fields).
\<close>

datatype Variant =
  E_rectangle
  | E_ellipse
  | E_diamond
  | E_arrow "Point list"
  | E_line "Point list"
  | E_freedraw "Point list" "real list"
  | E_text string real string TextAlign

record Element =
  el_id :: string
  el_x :: real
  el_y :: real
  el_width :: real
  el_height :: real
  el_angle :: real
  strokeColor :: string
  fillColor :: string
  strokeWidth :: real
  strokeStyle :: StrokeStyle
  roughness :: real
  opacity :: real
  seed :: int
  isDeleted :: bool
  variant :: Variant

record Viewport =
  zoom :: real
  offsetX :: real
  offsetY :: real

record DrawingProperties =
  prop_strokeColor :: string
  prop_fillColor :: string
  prop_strokeWidth :: real
  prop_strokeStyle :: StrokeStyle
  prop_roughness :: real
  prop_opacity :: real
  prop_fontSize :: real
  prop_fontFamily :: string

text \<open>The object \<open>{x, y, width, height}\<close> used for bounds and rectangles.\<close>

record Rect =
  rect_x :: real
  rect_y :: real
  rect_width :: real
  rect_height :: real

text \<open>The two fields of the canvas's \<open>DOMRect\<close> that the code reads.\<close>

record DOMRect =
  dom_left :: real
  dom_top :: real

section \<open>Constants (lib/constants.ts)\<close>

definition SELECTION_PADDING :: real where "SELECTION_PADDING = 8"
definition HANDLE_SIZE :: real where "HANDLE_SIZE = 8"
definition HIT_THRESHOLD :: real where "HIT_THRESHOLD = 8"
definition MIN_ZOOM :: real where "MIN_ZOOM = 1 / 10"
definition MAX_ZOOM :: real where "MAX_ZOOM = 20"

section \<open>Geometry (lib/geometry.ts)\<close>

definition distanceBetween :: "Point \<Rightarrow> Point \<Rightarrow> real" where
  "distanceBetween a b = sqrt ((fst b - fst a)\<^sup>2 + (snd b - snd a)\<^sup>2)"

definition distanceToSegment :: "Point \<Rightarrow> Point \<Rightarrow> Point \<Rightarrow> real" where
  "distanceToSegment p a b =
     (let dx = fst b - fst a;
          dy = snd b - snd a;
          lenSq = dx * dx + dy * dy
      in if lenSq = 0 then distanceBetween p a
         else let t0 = ((fst p - fst a) * dx + (snd p - snd a) * dy) / lenSq;
                  t = max 0 (min 1 t0)
              in distanceBetween p (fst a + t * dx, snd a + t * dy))"

text \<open>
  \<open>Math.min(...vs)\<close> and \<open>Math.max(...vs)\<close> on an argument list that is not empty: the first
  argument is passed apart, so that the empty call (which is \<open>Infinity\<close> in JavaScript and
  which the code never makes) is not in the model.
\<close>

definition Math_min :: "real \<Rightarrow> real list \<Rightarrow> real" where
  "Math_min v vs = fold min vs v"

definition Math_max :: "real \<Rightarrow> real list \<Rightarrow> real" where
  "Math_max v vs = fold max vs v"

text \<open>The \<open>points\<close> of a path-like element; \<open>None\<close> for the box-like types.\<close>

definition pathPoints :: "Element \<Rightarrow> Point list option" where
  "pathPoints el =
     (case variant el of
        E_arrow ps \<Rightarrow> Some ps
      | E_line ps \<Rightarrow> Some ps
      | E_freedraw ps pr \<Rightarrow> Some ps
      | _ \<Rightarrow> None)"

definition getElementBounds :: "Element \<Rightarrow> Rect" where
  "getElementBounds el =
     (case pathPoints el of
        Some [] \<Rightarrow> \<lparr>rect_x = el_x el, rect_y = el_y el, rect_width = 0, rect_height = 0\<rparr>
      | Some (p # ps) \<Rightarrow>
          (let xs = map (\<lambda>q. el_x el + fst q) ps;
               ys = map (\<lambda>q. el_y el + snd q) ps;
               minX = Math_min (el_x el + fst p) xs;
               minY = Math_min (el_y el + snd p) ys
           in \<lparr>rect_x = minX, rect_y = minY,
               rect_width = Math_max (el_x el + fst p) xs - minX,
               rect_height = Math_max (el_y el + snd p) ys - minY\<rparr>)
      | None \<Rightarrow>
          \<lparr>rect_x = el_x el, rect_y = el_y el,
           rect_width = el_width el, rect_height = el_height el\<rparr>)"

text \<open>
  The loop \<open>for (i = 0; i < points.length - 1; i++)\<close> over consecutive point pairs, which
  returns true at the first segment closer than the threshold.
\<close>

fun segmentHit :: "Point \<Rightarrow> Point \<Rightarrow> real \<Rightarrow> Point list \<Rightarrow> bool" where
  "segmentHit p anchor th (q1 # q2 # rest) =
     (if distanceToSegment p
           (fst anchor + fst q1, snd anchor + snd q1)
           (fst anchor + fst q2, snd anchor + snd q2) < th
      then True
      else segmentHit p anchor th (q2 # rest))"
| "segmentHit p anchor th qs = False"

definition isPointInElement :: "real \<Rightarrow> real \<Rightarrow> Element \<Rightarrow> real \<Rightarrow> bool" where
  "isPointInElement px py el threshold =
     (case variant el of
        E_line ps \<Rightarrow> segmentHit (px, py) (el_x el, el_y el) threshold ps
      | E_arrow ps \<Rightarrow> segmentHit (px, py) (el_x el, el_y el) threshold ps
      | E_freedraw ps pr \<Rightarrow> segmentHit (px, py) (el_x el, el_y el) (threshold / 2) ps
      | _ \<Rightarrow> px \<ge> el_x el \<and> px \<le> el_x el + el_width el
             \<and> py \<ge> el_y el \<and> py \<le> el_y el + el_height el)"

text \<open>The scan from the last element down to the first: the topmost hit wins.\<close>

definition getElementAtPoint :: "Element list \<Rightarrow> real \<Rightarrow> real \<Rightarrow> real \<Rightarrow> Element option" where
  "getElementAtPoint els px py threshold =
     find (\<lambda>el. \<not> isDeleted el \<and> isPointInElement px py el threshold) (rev els)"

definition getElementsInRect ::
  "Element list \<Rightarrow> real \<Rightarrow> real \<Rightarrow> real \<Rightarrow> real \<Rightarrow> Element list" where
  "getElementsInRect els rx ry rw rh =
     filter (\<lambda>el.
       if isDeleted el then False
       else let b = getElementBounds el
            in rect_x b \<ge> rx \<and> rect_y b \<ge> ry
               \<and> rect_x b + rect_width b \<le> rx + rw
               \<and> rect_y b + rect_height b \<le> ry + rh) els"

definition clientToWorld :: "real \<Rightarrow> real \<Rightarrow> DOMRect \<Rightarrow> Viewport \<Rightarrow> Point" where
  "clientToWorld clientX clientY rect vp =
     ((clientX - dom_left rect) / zoom vp + offsetX vp,
      (clientY - dom_top rect) / zoom vp + offsetY vp)"

definition getSelectionBounds :: "Element list \<Rightarrow> string list \<Rightarrow> Rect option" where
  "getSelectionBounds els selected_ids =
     (case map getElementBounds
             (filter (\<lambda>el. el_id el \<in> set selected_ids \<and> \<not> isDeleted el) els) of
        [] \<Rightarrow> None
      | b # bs \<Rightarrow>
          (let bx = Math_min (rect_x b) (map rect_x bs);
               by = Math_min (rect_y b) (map rect_y bs);
               x2 = Math_max (rect_x b + rect_width b) (map (\<lambda>c. rect_x c + rect_width c) bs);
               y2 = Math_max (rect_y b + rect_height b) (map (\<lambda>c. rect_y c + rect_height c) bs)
           in Some \<lparr>rect_x = bx, rect_y = by, rect_width = x2 - bx, rect_height = y2 - by\<rparr>))"

definition getHandleAtScreenPoint ::
  "real \<Rightarrow> real \<Rightarrow> Element list \<Rightarrow> string list \<Rightarrow> Viewport \<Rightarrow> ResizeHandle option" where
  "getHandleAtScreenPoint screenX screenY els selected_ids vp =
     (if length selected_ids \<noteq> 1 then None
      else case getSelectionBounds els selected_ids of
        None \<Rightarrow> None
      | Some bounds \<Rightarrow>
          (let pad = SELECTION_PADDING / zoom vp;
               bx = (rect_x bounds - pad - offsetX vp) * zoom vp;
               by = (rect_y bounds - pad - offsetY vp) * zoom vp;
               bw = (rect_width bounds + pad * 2) * zoom vp;
               bh = (rect_height bounds + pad * 2) * zoom vp;
               handles =
                 [(H_nw, bx, by),
                  (H_n, bx + bw / 2, by),
                  (H_ne, bx + bw, by),
                  (H_e, bx + bw, by + bh / 2),
                  (H_se, bx + bw, by + bh),
                  (H_s, bx + bw / 2, by + bh),
                  (H_sw, bx, by + bh),
                  (H_w, bx, by + bh / 2)];
               hitR = HANDLE_SIZE + 2
           in map_option fst
                (find (\<lambda>(h, hx, hy). \<bar>screenX - hx\<bar> < hitR \<and> \<bar>screenY - hy\<bar> < hitR)
                   handles)))"

definition applyResize :: "Rect \<Rightarrow> ResizeHandle \<Rightarrow> real \<Rightarrow> real \<Rightarrow> Rect" where
  "applyResize orig handle dx dy =
     (let (x, y, width, height) =
            (case handle of
               H_nw \<Rightarrow> (rect_x orig + dx, rect_y orig + dy, rect_width orig - dx, rect_height orig - dy)
             | H_n \<Rightarrow> (rect_x orig, rect_y orig + dy, rect_width orig, rect_height orig - dy)
             | H_ne \<Rightarrow> (rect_x orig, rect_y orig + dy, rect_width orig + dx, rect_height orig - dy)
             | H_e \<Rightarrow> (rect_x orig, rect_y orig, rect_width orig + dx, rect_height orig)
             | H_se \<Rightarrow> (rect_x orig, rect_y orig, rect_width orig + dx, rect_height orig + dy)
             | H_s \<Rightarrow> (rect_x orig, rect_y orig, rect_width orig, rect_height orig + dy)
             | H_sw \<Rightarrow> (rect_x orig + dx, rect_y orig, rect_width orig - dx, rect_height orig + dy)
             | H_w \<Rightarrow> (rect_x orig + dx, rect_y orig, rect_width orig - dx, rect_height orig));
          width' = (if width < 2 then 2 else width);
          height' = (if height < 2 then 2 else height)
      in \<lparr>rect_x = x, rect_y = y, rect_width = width', rect_height = height'\<rparr>)"

section \<open>Element construction (lib/elements.ts)\<close>

text \<open>
  What the handlers can throw: a \<open>TypeError\<close> when a property of \<open>undefined\<close> is read, the
  \<open>SyntaxError\<close> of \<open>JSON.parse(undefined)\<close>, and the \<open>Error\<close> of \<open>createElement\<close> for
  a tool that creates nothing. A handler that throws is \<open>Inl\<close> of the error; the state
  writes it made before throwing are not kept in the model.
\<close>

datatype error = TypeError | SyntaxError | UnknownTool

text \<open>
  \<open>createBase\<close>: the caller passes the application's \<open>properties\<close>, which has every
  field, so the \<open>??\<close> defaults never apply. \<open>uuidv4()\<close> and \<open>Math.random()\<close> are inputs
  (\<open>newId\<close>, \<open>newSeed\<close>). The last argument is the \<open>type\<close> with its own fields, which
  \<open>createElement\<close> spreads onto the base object.
\<close>

definition createBase ::
  "string \<Rightarrow> int \<Rightarrow> real \<Rightarrow> real \<Rightarrow> DrawingProperties \<Rightarrow> Variant \<Rightarrow> Element" where
  "createBase newId newSeed x y props v =
     \<lparr>el_id = newId, el_x = x, el_y = y, el_width = 0, el_height = 0, el_angle = 0,
      strokeColor = prop_strokeColor props,
      fillColor = prop_fillColor props,
      strokeWidth = prop_strokeWidth props,
      strokeStyle = prop_strokeStyle props,
      roughness = prop_roughness props,
      opacity = prop_opacity props,
      seed = newSeed,
      isDeleted = False,
      variant = v\<rparr>"

definition createElement ::
  "string \<Rightarrow> int \<Rightarrow> Tool \<Rightarrow> real \<Rightarrow> real \<Rightarrow> DrawingProperties \<Rightarrow> error + Element" where
  "createElement newId newSeed t x y props =
     (case t of
        T_rectangle \<Rightarrow> Inr (createBase newId newSeed x y props E_rectangle)
      | T_ellipse \<Rightarrow> Inr (createBase newId newSeed x y props E_ellipse)
      | T_diamond \<Rightarrow> Inr (createBase newId newSeed x y props E_diamond)
      | T_arrow \<Rightarrow> Inr (createBase newId newSeed x y props (E_arrow [(0, 0)]))
      | T_line \<Rightarrow> Inr (createBase newId newSeed x y props (E_line [(0, 0)]))
      | T_freedraw \<Rightarrow> Inr (createBase newId newSeed x y props (E_freedraw [(0, 0)] [1 / 2]))
      | T_text \<Rightarrow>
          Inr ((createBase newId newSeed x y props
                  (E_text [] (prop_fontSize props) (prop_fontFamily props) A_left))
               \<lparr>el_width := 10, el_height := prop_fontSize props\<rparr>)
      | _ \<Rightarrow> Inl UnknownTool)"

definition normalizeRect :: "real \<Rightarrow> real \<Rightarrow> real \<Rightarrow> real \<Rightarrow> Rect" where
  "normalizeRect x1 y1 x2 y2 =
     \<lparr>rect_x = min x1 x2, rect_y = min y1 y2,
      rect_width = \<bar>x2 - x1\<bar>, rect_height = \<bar>y2 - y1\<bar>\<rparr>"

text \<open>\<open>text.split('\n')\<close>: the lines of a text, one more than its line feeds.\<close>

fun splitLines :: "string \<Rightarrow> string list" where
  "splitLines [] = [[]]"
| "splitLines (c # cs) =
     (if c = CHR 0x0A then [] # splitLines cs
      else case splitLines cs of
             l # ls \<Rightarrow> (c # l) # ls
           | [] \<Rightarrow> [[c]])"

text \<open>
  \<open>measureText\<close>: the width of a line in a font comes from the canvas context
  (\<open>ctx.measureText(l).width\<close>), which is outside the repository and is the parameter
  \<open>ctxWidth\<close>. The maximum does not depend on the order of its arguments.
\<close>

definition measureText ::
  "(real \<Rightarrow> string \<Rightarrow> string \<Rightarrow> real) \<Rightarrow> string \<Rightarrow> real \<Rightarrow> string \<Rightarrow> real \<times> real" where
  "measureText ctxWidth txt fontSize fontFamily =
     (let ls = splitLines txt;
          maxWidth = Math_max 10 (map (ctxWidth fontSize fontFamily) ls);
          height = real (length ls) * fontSize * (135 / 100)
      in (maxWidth, height))"

section \<open>Application state (components/ExcalidrawApp.tsx)\<close>

datatype Interaction =
  Idle
  | Drawing real real
  | Freedrawing
  | Selecting real real
  | Moving real real "(string \<times> Point) list"
  | Resizing ResizeHandle real real Rect string
  | Panning real real Point

record History =
  stack :: "Element list list"
  index :: nat

text \<open>
  The React state and the refs of the component that the handlers read and write. A state
  setter is an immediate write of the field. \<open>theme\<close> and the DOM refs are left out: no
  handler below reads them.
\<close>

record AppState =
  tool :: Tool
  properties :: DrawingProperties
  elements :: "Element list"
  selectedIds :: "string list"
  viewport :: Viewport
  showGrid :: bool
  editingTextId :: "string option"
  history :: History
  canUndo :: bool
  canRedo :: bool
  drawingEl :: "Element option"
  selRect :: "Rect option"
  interaction :: Interaction
  isSpace :: bool

text \<open>What the handlers read from the page: the textarea, the canvas, the font metrics.\<close>

record Env =
  textareaValue :: string
  ctxMeasureWidth :: "real \<Rightarrow> string \<Rightarrow> string \<Rightarrow> real"
  canvasOffsetWidth :: real
  canvasOffsetHeight :: real

record MouseEvent =
  clientX :: real
  clientY :: real
  button :: nat
  shiftKey :: bool
  detail :: nat

record KeyboardEvent =
  key :: string
  key_ctrlKey :: bool
  key_metaKey :: bool
  key_shiftKey :: bool
  targetTagName :: string

definition initialState :: "DrawingProperties \<Rightarrow> AppState" where
  "initialState props =
     \<lparr>tool = T_select, properties = props, elements = [], selectedIds = [],
      viewport = \<lparr>zoom = 1, offsetX = 0, offsetY = 0\<rparr>,
      showGrid = False, editingTextId = None,
      history = \<lparr>stack = [[]], index = 0\<rparr>,
      canUndo = False, canRedo = False,
      drawingEl = None, selRect = None, interaction = Idle, isSpace = False\<rparr>"

subsection \<open>Sets of identifiers\<close>

definition Set_has :: "string list \<Rightarrow> string \<Rightarrow> bool" where
  "Set_has ids i = (i \<in> set ids)"

definition Set_add :: "string list \<Rightarrow> string \<Rightarrow> string list" where
  "Set_add ids i = (if i \<in> set ids then ids else ids @ [i])"

definition Set_delete :: "string list \<Rightarrow> string \<Rightarrow> string list" where
  "Set_delete ids i = filter (\<lambda>j. j \<noteq> i) ids"

subsection \<open>History\<close>

text \<open>
  \<open>JSON.parse(JSON.stringify(els))\<close> is a deep copy: on values, which have no identity,
  it is the identity. \<open>stack.slice(0, index + 1)\<close> is \<open>take (index + 1) stack\<close>.
\<close>

definition pushHistory :: "Element list \<Rightarrow> AppState \<Rightarrow> AppState" where
  "pushHistory els s =
     (let newStack = take (index (history s) + 1) (stack (history s)) @ [els]
      in s\<lparr>history := \<lparr>stack = newStack, index = length newStack - 1\<rparr>,
           canUndo := (length newStack > 1),
           canRedo := False\<rparr>)"

text \<open>
  \<open>undo\<close>: \<open>stack[newIndex]\<close> past the end of the array is \<open>undefined\<close>, which
  \<open>JSON.stringify\<close> returns as \<open>undefined\<close> and \<open>JSON.parse\<close> refuses with a SyntaxError.
\<close>

definition undo :: "AppState \<Rightarrow> error + AppState" where
  "undo s =
     (if index (history s) > 0 then
        (let newIndex = index (history s) - 1
         in if newIndex < length (stack (history s)) then
              Inr (s\<lparr>history := (history s)\<lparr>index := newIndex\<rparr>,
                     elements := stack (history s) ! newIndex,
                     selectedIds := [],
                     canUndo := (newIndex > 0),
                     canRedo := True\<rparr>)
            else Inl SyntaxError)
      else Inr s)"

text \<open>
  \<open>redo\<close>: under its guard \<open>index < stack.length - 1\<close> (compared as integers, since the
  right side is \<open>-1\<close> for an empty array) the new index is inside the array.
\<close>

definition redo :: "AppState \<Rightarrow> AppState" where
  "redo s =
     (if int (index (history s)) < int (length (stack (history s))) - 1 then
        (let newIndex = index (history s) + 1
         in s\<lparr>history := (history s)\<lparr>index := newIndex\<rparr>,
              elements := stack (history s) ! newIndex,
              selectedIds := [],
              canUndo := True,
              canRedo := (int newIndex < int (length (stack (history s))) - 1)\<rparr>)
      else s)"

subsection \<open>Zoom\<close>

definition zoomAround :: "real \<Rightarrow> real \<Rightarrow> real \<Rightarrow> AppState \<Rightarrow> AppState" where
  "zoomAround centerX centerY newZoom s =
     (let vp = viewport s;
          clamped = max MIN_ZOOM (min MAX_ZOOM newZoom);
          newOffsetX = offsetX vp + centerX * (1 / zoom vp - 1 / clamped);
          newOffsetY = offsetY vp + centerY * (1 / zoom vp - 1 / clamped)
      in s\<lparr>viewport := \<lparr>zoom = clamped, offsetX = newOffsetX, offsetY = newOffsetY\<rparr>\<rparr>)"

subsection \<open>Text editing\<close>

definition isText :: "Element \<Rightarrow> bool" where
  "isText el = (case variant el of E_text t fs ff al \<Rightarrow> True | _ \<Rightarrow> False)"

text \<open>
  \<open>startTextEditing\<close>: the two state writes; the deferred focus of the textarea only
  touches the page.
\<close>

definition startTextEditing :: "Element \<Rightarrow> AppState \<Rightarrow> AppState" where
  "startTextEditing el s = s\<lparr>editingTextId := Some (el_id el), selectedIds := [el_id el]\<rparr>"

text \<open>
  \<open>text.trim() === ''\<close>: every character is white space (the white space of the
  8-bit character set of \<open>string\<close>).
\<close>

definition trimIsEmpty :: "string \<Rightarrow> bool" where
  "trimIsEmpty txt =
     list_all (\<lambda>c. c \<in> set [CHR 0x09, CHR 0x0A, CHR 0x0B, CHR 0x0C, CHR 0x0D, CHR 0x20]) txt"

text \<open>
  \<open>commitTextEdit\<close>: \<open>!editingTextId\<close> holds for \<open>null\<close> and for the empty string. The
  \<open>reduce\<close> rebuilds the element list, dropping a text element that was and stays empty.
\<close>

definition commitTextEdit :: "Env \<Rightarrow> AppState \<Rightarrow> AppState" where
  "commitTextEdit env s =
     (case editingTextId s of
        None \<Rightarrow> s
      | Some eid \<Rightarrow>
          if eid = [] then s
          else
            (let txt = textareaValue env;
                 newEls =
                   foldl (\<lambda>acc el.
                     case variant el of
                       E_text old fs ff al \<Rightarrow>
                         if el_id el \<noteq> eid then acc @ [el]
                         else if trimIsEmpty txt \<and> old = [] then acc
                         else
                           (let (w, h) = measureText (ctxMeasureWidth env) txt fs ff
                            in acc @ [el\<lparr>variant := E_text txt fs ff al,
                                         el_width := max w 10,
                                         el_height := max h fs\<rparr>])
                     | _ \<Rightarrow> acc @ [el]) [] (elements s)
             in (pushHistory newEls (s\<lparr>elements := newEls\<rparr>))\<lparr>editingTextId := None\<rparr>))"

subsection \<open>Pointer down on the canvas\<close>

text \<open>
  The handlers run with the canvas mounted, so their \<open>if (!canvas) return\<close> guard is not
  a branch of the model. The canvas's bounding rectangle is the argument \<open>rect\<close>.
\<close>

text \<open>
  The map \<open>origPositions\<close>: for each active id, the position of the first element with
  that id. \<open>elements.find(...)!\<close> is \<open>undefined\<close> when no element has the id, and reading
  its \<open>x\<close> throws.
\<close>

fun origPositionsOf :: "Element list \<Rightarrow> string list \<Rightarrow> error + (string \<times> Point) list" where
  "origPositionsOf els [] = Inr []"
| "origPositionsOf els (i # ids) =
     (case find (\<lambda>el. el_id el = i) els of
        None \<Rightarrow> Inl TypeError
      | Some el \<Rightarrow>
          (case origPositionsOf els ids of
             Inl err \<Rightarrow> Inl err
           | Inr rest \<Rightarrow> Inr ((i, (el_x el, el_y el)) # rest)))"

text \<open>
  The branch of \<open>handleMouseDown\<close> for the selection tool: a resize handle first, then the
  hit test (a double click on a text opens the editor; otherwise the click updates the
  selection and starts a move), then the rubber band.
\<close>

definition mouseDownSelect :: "DOMRect \<Rightarrow> MouseEvent \<Rightarrow> Point \<Rightarrow> AppState \<Rightarrow> error + AppState" where
  "mouseDownSelect rect e world s =
     (let els = elements s;
          sel = selectedIds s;
          screenX = clientX e - dom_left rect;
          screenY = clientY e - dom_top rect;
          resizing =
            (case getHandleAtScreenPoint screenX screenY els sel (viewport s) of
               None \<Rightarrow> None
             | Some handle \<Rightarrow>
                 (case (getSelectionBounds els sel, sel) of
                    (Some bounds, elementId # rest) \<Rightarrow>
                      if elementId \<noteq> []
                      then Some (Resizing handle (fst world) (snd world) bounds elementId)
                      else None
                  | _ \<Rightarrow> None))
      in case resizing of
           Some r \<Rightarrow> Inr (s\<lparr>interaction := r\<rparr>)
         | None \<Rightarrow>
             (case getElementAtPoint els (fst world) (snd world) HIT_THRESHOLD of
                Some hit \<Rightarrow>
                  if detail e = 2 \<and> isText hit then Inr (startTextEditing hit s)
                  else
                    (let s1 =
                           (if \<not> shiftKey e \<and> \<not> Set_has sel (el_id hit)
                            then s\<lparr>selectedIds := [el_id hit]\<rparr>
                            else if shiftKey e
                            then s\<lparr>selectedIds :=
                                     (if Set_has sel (el_id hit)
                                      then Set_delete sel (el_id hit)
                                      else Set_add sel (el_id hit))\<rparr>
                            else s);
                         activeIds =
                           (if shiftKey e then Set_add sel (el_id hit)
                            else if Set_has sel (el_id hit) then sel
                            else [el_id hit])
                     in case origPositionsOf els activeIds of
                          Inl err \<Rightarrow> Inl err
                        | Inr origPositions \<Rightarrow>
                            Inr (s1\<lparr>interaction :=
                                      Moving (fst world) (snd world) origPositions\<rparr>))
              | None \<Rightarrow>
                  Inr (s\<lparr>selectedIds := [],
                         interaction := Selecting (fst world) (snd world)\<rparr>)))"

definition handleMouseDown ::
  "Env \<Rightarrow> DOMRect \<Rightarrow> string \<Rightarrow> int \<Rightarrow> MouseEvent \<Rightarrow> AppState \<Rightarrow> error + AppState" where
  "handleMouseDown env rect newId newSeed e s =
     (if editingTextId s \<noteq> None \<and> editingTextId s \<noteq> Some []
      then Inr (commitTextEdit env s)
      else
        (let els = elements s;
             vp = viewport s;
             world = clientToWorld (clientX e) (clientY e) rect vp
         in if tool s = T_hand \<or> button e = 1 \<or> (button e = 0 \<and> isSpace s) then
              Inr (s\<lparr>interaction :=
                       Panning (clientX e) (clientY e) (offsetX vp, offsetY vp)\<rparr>)
            else if button e \<noteq> 0 then Inr s
            else if tool s = T_select then mouseDownSelect rect e world s
            else if tool s = T_eraser then
              (case getElementAtPoint els (fst world) (snd world) HIT_THRESHOLD of
                 Some hit \<Rightarrow>
                   (let newEls =
                          map (\<lambda>el. if el_id el = el_id hit then el\<lparr>isDeleted := True\<rparr> else el)
                            els
                    in Inr ((pushHistory newEls (s\<lparr>elements := newEls\<rparr>))\<lparr>selectedIds := []\<rparr>))
               | None \<Rightarrow> Inr s)
            else if tool s = T_text then
              (case getElementAtPoint els (fst world) (snd world) HIT_THRESHOLD of
                 Some hit \<Rightarrow>
                   if isText hit then Inr (startTextEditing hit s)
                   else
                     (case createElement newId newSeed T_text (fst world) (snd world)
                             (properties s) of
                        Inl err \<Rightarrow> Inl err
                      | Inr newEl \<Rightarrow> Inr (startTextEditing newEl (s\<lparr>elements := els @ [newEl]\<rparr>)))
               | None \<Rightarrow>
                   (case createElement newId newSeed T_text (fst world) (snd world)
                           (properties s) of
                      Inl err \<Rightarrow> Inl err
                    | Inr newEl \<Rightarrow> Inr (startTextEditing newEl (s\<lparr>elements := els @ [newEl]\<rparr>))))
            else if tool s = T_freedraw then
              (case createElement newId newSeed T_freedraw (fst world) (snd world)
                      (properties s) of
                 Inl err \<Rightarrow> Inl err
               | Inr newEl \<Rightarrow> Inr (s\<lparr>drawingEl := Some newEl, interaction := Freedrawing\<rparr>))
            else if tool s = T_rectangle \<or> tool s = T_ellipse \<or> tool s = T_diamond
                    \<or> tool s = T_arrow \<or> tool s = T_line then
              (case createElement newId newSeed (tool s) (fst world) (snd world)
                      (properties s) of
                 Inl err \<Rightarrow> Inl err
               | Inr newEl \<Rightarrow>
                   Inr (s\<lparr>drawingEl := Some newEl,
                          interaction := Drawing (fst world) (snd world)\<rparr>))
            else Inr s))"

subsection \<open>Pointer move and pointer up on the window\<close>

text \<open>
  The function mapped over the scene in the moving case: an element with an entry in
  \<open>origPositions\<close> is placed at its original position plus the delta, any other is kept.
\<close>

definition moveElement :: "(string \<times> Point) list \<Rightarrow> real \<Rightarrow> real \<Rightarrow> Element \<Rightarrow> Element" where
  "moveElement origPositions dx dy el =
     (case map_of origPositions (el_id el) of
        None \<Rightarrow> el
      | Some orig \<Rightarrow> el\<lparr>el_x := fst orig + dx, el_y := snd orig + dy\<rparr>)"

definition onMouseMove :: "DOMRect \<Rightarrow> MouseEvent \<Rightarrow> AppState \<Rightarrow> error + AppState" where
  "onMouseMove rect e s =
     (let vp = viewport s;
          world = clientToWorld (clientX e) (clientY e) rect vp
      in case interaction s of
           Idle \<Rightarrow> Inr s
         | Panning startX startY origOffset \<Rightarrow>
             (let dx = (clientX e - startX) / zoom vp;
                  dy = (clientY e - startY) / zoom vp
              in Inr (s\<lparr>viewport :=
                          \<lparr>zoom = zoom vp,
                           offsetX = fst origOffset - dx,
                           offsetY = snd origOffset - dy\<rparr>\<rparr>))
         | Drawing startX startY \<Rightarrow>
             (case drawingEl s of
                None \<Rightarrow> Inr s
              | Some el \<Rightarrow>
                  (case variant el of
                     E_line ps \<Rightarrow>
                       Inr (s\<lparr>drawingEl := Some (el\<lparr>variant :=
                              E_line [(0, 0), (fst world - el_x el, snd world - el_y el)]\<rparr>)\<rparr>)
                   | E_arrow ps \<Rightarrow>
                       Inr (s\<lparr>drawingEl := Some (el\<lparr>variant :=
                              E_arrow [(0, 0), (fst world - el_x el, snd world - el_y el)]\<rparr>)\<rparr>)
                   | _ \<Rightarrow>
                       (let norm = normalizeRect startX startY (fst world) (snd world)
                        in Inr (s\<lparr>drawingEl := Some (el\<lparr>el_x := rect_x norm,
                                                         el_y := rect_y norm,
                                                         el_width := rect_width norm,
                                                         el_height := rect_height norm\<rparr>)\<rparr>))))
         | Freedrawing \<Rightarrow>
             (case drawingEl s of
                None \<Rightarrow> Inr s
              | Some el \<Rightarrow>
                  (case variant el of
                     E_freedraw ps pr \<Rightarrow>
                       Inr (s\<lparr>drawingEl := Some (el\<lparr>variant :=
                              E_freedraw (ps @ [(fst world - el_x el, snd world - el_y el)])
                                         (pr @ [1 / 2])\<rparr>)\<rparr>)
                   | _ \<Rightarrow> Inl TypeError))
         | Selecting startX startY \<Rightarrow>
             (let x = min startX (fst world);
                  y = min startY (snd world);
                  width = \<bar>fst world - startX\<bar>;
                  height = \<bar>snd world - startY\<bar>;
                  inRect = getElementsInRect (elements s) x y width height
              in Inr (s\<lparr>selRect := Some \<lparr>rect_x = x, rect_y = y,
                                          rect_width = width, rect_height = height\<rparr>,
                         selectedIds := remdups (map el_id inRect)\<rparr>))
         | Moving startX startY origPositions \<Rightarrow>
             (let dx = fst world - startX;
                  dy = snd world - startY
              in Inr (s\<lparr>elements := map (moveElement origPositions dx dy) (elements s)\<rparr>))
         | Resizing handle startX startY origBounds elementId \<Rightarrow>
             (let dx = fst world - startX;
                  dy = snd world - startY;
                  r = applyResize origBounds handle dx dy
              in Inr (s\<lparr>elements :=
                          map (\<lambda>el. if el_id el = elementId
                                    then el\<lparr>el_x := rect_x r, el_y := rect_y r,
                                            el_width := rect_width r,
                                            el_height := rect_height r\<rparr>
                                    else el)
                            (elements s)\<rparr>)))"

text \<open>
  The validity check of \<open>onMouseUp\<close>: a path-like element needs two points, a box-like
  one a width or a height above 2.
\<close>

definition isValid :: "Element \<Rightarrow> bool" where
  "isValid el =
     (case pathPoints el of
        Some ps \<Rightarrow> length ps \<ge> 2
      | None \<Rightarrow> \<bar>el_width el\<bar> > 2 \<or> \<bar>el_height el\<bar> > 2)"

definition onMouseUp :: "AppState \<Rightarrow> AppState" where
  "onMouseUp s =
     (let s1 =
            (case interaction s of
               Drawing startX startY \<Rightarrow>
                 (case drawingEl s of
                    Some el \<Rightarrow>
                      if isValid el
                      then (let newEls = elements s @ [el]
                            in (pushHistory newEls (s\<lparr>elements := newEls\<rparr>))
                                 \<lparr>selectedIds := [el_id el], drawingEl := None\<rparr>)
                      else s\<lparr>drawingEl := None\<rparr>
                  | None \<Rightarrow> s\<lparr>drawingEl := None\<rparr>)
             | Freedrawing \<Rightarrow>
                 (case drawingEl s of
                    Some el \<Rightarrow>
                      if isValid el
                      then (let newEls = elements s @ [el]
                            in (pushHistory newEls (s\<lparr>elements := newEls\<rparr>))
                                 \<lparr>selectedIds := [el_id el], drawingEl := None\<rparr>)
                      else s\<lparr>drawingEl := None\<rparr>
                  | None \<Rightarrow> s\<lparr>drawingEl := None\<rparr>)
             | Selecting startX startY \<Rightarrow> s\<lparr>selRect := None\<rparr>
             | Moving startX startY origPositions \<Rightarrow> pushHistory (elements s) s
             | Resizing handle startX startY origBounds elementId \<Rightarrow> pushHistory (elements s) s
             | _ \<Rightarrow> s)
      in s1\<lparr>interaction := Idle\<rparr>)"

subsection \<open>Tool change and keyboard shortcuts\<close>

text \<open>The toolbar's \<open>onToolChange\<close> is the state setter \<open>setTool\<close> itself.\<close>

definition setTool :: "Tool \<Rightarrow> AppState \<Rightarrow> AppState" where
  "setTool t s = s\<lparr>tool := t\<rparr>"

definition toolMap :: "(string \<times> Tool) list" where
  "toolMap =
     [(''v'', T_select), (''1'', T_select),
      (''h'', T_hand), (''2'', T_hand),
      (''r'', T_rectangle), (''3'', T_rectangle),
      (''o'', T_ellipse), (''4'', T_ellipse),
      (''d'', T_diamond), (''5'', T_diamond),
      (''a'', T_arrow), (''6'', T_arrow),
      (''l'', T_line), (''7'', T_line),
      (''p'', T_freedraw), (''8'', T_freedraw),
      (''t'', T_text), (''9'', T_text),
      (''e'', T_eraser), (''0'', T_eraser)]"

text \<open>
  The part of \<open>onKeyDown\<close> below the Ctrl/Cmd shortcuts: tool shortcuts, Delete and
  Backspace, Escape, the grid toggle.
\<close>

definition onKeyDownPlain :: "Env \<Rightarrow> KeyboardEvent \<Rightarrow> AppState \<Rightarrow> AppState" where
  "onKeyDownPlain env k s =
     (case (if \<not> key_ctrlKey k \<and> \<not> key_metaKey k then map_of toolMap (key k) else None) of
        Some t \<Rightarrow> setTool t s
      | None \<Rightarrow>
          if key k = ''Delete'' \<or> key k = ''Backspace'' then
            (if length (selectedIds s) > 0 then
               (let newEls =
                      map (\<lambda>el. if Set_has (selectedIds s) (el_id el)
                                then el\<lparr>isDeleted := True\<rparr> else el)
                        (elements s)
                in (pushHistory newEls (s\<lparr>elements := newEls\<rparr>))\<lparr>selectedIds := []\<rparr>)
             else s)
          else if key k = ''Escape'' then
            commitTextEdit env
              (s\<lparr>drawingEl := None, selRect := None, interaction := Idle, selectedIds := []\<rparr>)
          else if key k = ''g'' \<or> key k = ''G'' then s\<lparr>showGrid := (\<not> showGrid s)\<rparr>
          else s)"

definition onKeyDown :: "Env \<Rightarrow> KeyboardEvent \<Rightarrow> AppState \<Rightarrow> error + AppState" where
  "onKeyDown env k s =
     (let inInput = (targetTagName k = ''INPUT'' \<or> targetTagName k = ''TEXTAREA''
                     \<or> targetTagName k = ''SELECT'');
          s0 = (if key k = '' '' \<and> \<not> inInput then s\<lparr>isSpace := True\<rparr> else s)
      in if inInput then
           Inr (if key k = ''Escape'' then commitTextEdit env s0 else s0)
         else if key_ctrlKey k \<or> key_metaKey k then
           (if key k = ''z'' then (if key_shiftKey k then Inr (redo s0) else undo s0)
            else if key k = ''y'' then Inr (redo s0)
            else if key k = ''a'' then
              Inr (s0\<lparr>selectedIds :=
                        remdups (map el_id (filter (\<lambda>el. \<not> isDeleted el) (elements s0)))\<rparr>)
            else if key k = ''='' \<or> key k = ''+'' then
              Inr (zoomAround (canvasOffsetWidth env / 2) (canvasOffsetHeight env / 2)
                     (zoom (viewport s0) * (115 / 100)) s0)
            else if key k = ''-'' then
              Inr (zoomAround (canvasOffsetWidth env / 2) (canvasOffsetHeight env / 2)
                     (zoom (viewport s0) / (115 / 100)) s0)
            else if key k = ''0'' then
              Inr (s0\<lparr>viewport := \<lparr>zoom = 1, offsetX = 0, offsetY = 0\<rparr>\<rparr>)
            else Inr (onKeyDownPlain env k s0))
         else Inr (onKeyDownPlain env k s0))"

section \<open>Gestures: sequences of events\<close>

text \<open>A handler that threw ends the sequence with its error.\<close>

definition andThen :: "error + 'a \<Rightarrow> ('a \<Rightarrow> error + 'b) \<Rightarrow> error + 'b" where
  "andThen r f = (case r of Inl err \<Rightarrow> Inl err | Inr v \<Rightarrow> f v)"

text \<open>The pointer-move events of a gesture, delivered in order.\<close>

definition mouseMoves :: "DOMRect \<Rightarrow> MouseEvent list \<Rightarrow> AppState \<Rightarrow> error + AppState" where
  "mouseMoves rect evs s = foldl (\<lambda>r e. andThen r (onMouseMove rect e)) (Inr s) evs"

text \<open>A whole gesture: pointer down, the pointer moves, pointer up.\<close>

definition gesture ::
  "Env \<Rightarrow> DOMRect \<Rightarrow> string \<Rightarrow> int \<Rightarrow> MouseEvent \<Rightarrow> MouseEvent list \<Rightarrow> AppState
     \<Rightarrow> error + AppState" where
  "gesture env rect newId newSeed down moves s =
     andThen (andThen (handleMouseDown env rect newId newSeed down s) (mouseMoves rect moves))
       (\<lambda>s'. Inr (onMouseUp s'))"

text \<open>
  The invariant of the history of the data model: the cursor is an index of the stored
  sequence.
\<close>

definition historyOk :: "History \<Rightarrow> bool" where
  "historyOk h = (index h < length (stack h))"

section \<open>Sample data\<close>

definition sampleProps :: DrawingProperties where
  "sampleProps =
     \<lparr>prop_strokeColor = ''#1e1e1e'', prop_fillColor = ''transparent'',
      prop_strokeWidth = 2, prop_strokeStyle = S_solid, prop_roughness = 1,
      prop_opacity = 100, prop_fontSize = 20, prop_fontFamily = ''Caveat, cursive''\<rparr>"

definition sampleBox :: "string \<Rightarrow> real \<Rightarrow> real \<Rightarrow> real \<Rightarrow> real \<Rightarrow> Element" where
  "sampleBox i x y w h =
     (createBase i 7 x y sampleProps E_rectangle)\<lparr>el_width := w, el_height := h\<rparr>"

definition sampleEnv :: Env where
  "sampleEnv =
     \<lparr>textareaValue = [], ctxMeasureWidth = (\<lambda>fs ff l. fs * real (length l)),
      canvasOffsetWidth = 800, canvasOffsetHeight = 600\<rparr>"

definition sampleRect :: DOMRect where
  "sampleRect = \<lparr>dom_left = 0, dom_top = 0\<rparr>"

definition mouseAt :: "real \<Rightarrow> real \<Rightarrow> bool \<Rightarrow> MouseEvent" where
  "mouseAt x y shift = \<lparr>clientX = x, clientY = y, button = 0, shiftKey = shift, detail = 1\<rparr>"

definition plainKey :: "string \<Rightarrow> KeyboardEvent" where
  "plainKey c =
     \<lparr>key = c, key_ctrlKey = False, key_metaKey = False, key_shiftKey = False,
      targetTagName = ''BODY''\<rparr>"

text \<open>One box, selected, recorded in the history.\<close>

definition sampleScene :: AppState where
  "sampleScene =
     (pushHistory [sampleBox ''a'' 0 0 10 10]
        ((initialState sampleProps)\<lparr>elements := [sampleBox ''a'' 0 0 10 10]\<rparr>))
     \<lparr>selectedIds := [''a'']\<rparr>"

text \<open>A history of three snapshots with the cursor on the middle one.\<close>

definition sampleMidHistory :: AppState where
  "sampleMidHistory =
     (initialState sampleProps)
     \<lparr>elements := [sampleBox ''a'' 0 0 10 10],
      selectedIds := [''a''],
      history := \<lparr>stack = [[], [sampleBox ''a'' 0 0 10 10],
                            [sampleBox ''a'' 0 0 10 10, sampleBox ''b'' 50 50 10 10]],
                   index = 1\<rparr>,
      canUndo := True, canRedo := True\<rparr>"

text \<open>Two boxes side by side, both selected.\<close>

definition sampleTwo :: AppState where
  "sampleTwo =
     (initialState sampleProps)
     \<lparr>elements := [sampleBox ''a'' 0 0 100 100, sampleBox ''b'' 200 0 100 100],
      selectedIds := [''a'', ''b''],
      history := \<lparr>stack = [[], [sampleBox ''a'' 0 0 100 100, sampleBox ''b'' 200 0 100 100]],
                   index = 1\<rparr>,
      canUndo := True\<rparr>"

text \<open>The same scene in the middle of a move that started at (50, 50).\<close>

definition sampleMoving :: AppState where
  "sampleMoving =
     sampleTwo\<lparr>interaction := Moving 50 50 [(''a'', (0, 0)), (''b'', (200, 0))]\<rparr>"

text \<open>The initial state with a tool chosen.\<close>

definition sampleDraw :: "Tool \<Rightarrow> AppState" where
  "sampleDraw t = (initialState sampleProps)\<lparr>tool := t\<rparr>"

section \<open>Properties\<close>

subsection \<open>Auxiliary facts\<close>

lemma Math_min_Min: "Math_min v vs = Min (set (v # vs))"
  by (simp only: Math_min_def Min.set_eq_fold)

lemma Math_max_Max: "Math_max v vs = Max (set (v # vs))"
  by (simp only: Math_max_def Max.set_eq_fold)

lemma Math_min_ge_iff: "r \<le> Math_min v vs \<longleftrightarrow> r \<le> v \<and> list_all (\<lambda>a. r \<le> a) vs"
  by (simp add: Math_min_Min list_all_iff del: set_simps) (auto simp: )

lemma Math_max_le_iff: "Math_max v vs \<le> r \<longleftrightarrow> v \<le> r \<and> list_all (\<lambda>a. a \<le> r) vs"
  by (simp add: Math_max_Max list_all_iff)

lemma pushHistory_history:
  "history (pushHistory els s) =
     \<lparr>stack = take (index (history s) + 1) (stack (history s)) @ [els],
      index = length (take (index (history s) + 1) (stack (history s)))\<rparr>"
  by (simp add: pushHistory_def Let_def)

lemma pushHistory_at_end:
  "history s = \<lparr>stack = P @ [A], index = length P\<rparr>
   \<Longrightarrow> history (pushHistory B s) = \<lparr>stack = P @ [A, B], index = Suc (length P)\<rparr>"
  by (simp add: pushHistory_history)

lemma pushHistory_other:
  "elements (pushHistory els s) = elements s"
  "selectedIds (pushHistory els s) = selectedIds s"
  "interaction (pushHistory els s) = interaction s"
  "drawingEl (pushHistory els s) = drawingEl s"
  by (simp_all add: pushHistory_def Let_def)

lemma pushHistory_historyOk: "historyOk (history (pushHistory els s))"
  by (simp add: pushHistory_history historyOk_def)

lemma redo_after_push: "redo (pushHistory els s) = pushHistory els s"
  by (simp add: redo_def pushHistory_history)

lemma bounds_path_inside:
  assumes "pathPoints el = Some (p # ps)"
  shows "(rx \<le> rect_x (getElementBounds el) \<and> ry \<le> rect_y (getElementBounds el)
          \<and> rect_x (getElementBounds el) + rect_width (getElementBounds el) \<le> rx + rw
          \<and> rect_y (getElementBounds el) + rect_height (getElementBounds el) \<le> ry + rh)
         \<longleftrightarrow> list_all (\<lambda>q. rx \<le> el_x el + fst q \<and> el_x el + fst q \<le> rx + rw
                          \<and> ry \<le> el_y el + snd q \<and> el_y el + snd q \<le> ry + rh) (p # ps)"
  using assms
  by (auto simp add: getElementBounds_def Let_def Math_min_ge_iff Math_max_le_iff
        list_all_iff)

lemma sampleBox_simps:
  "el_id (sampleBox i x y w h) = i" "el_x (sampleBox i x y w h) = x"
  "el_y (sampleBox i x y w h) = y" "el_width (sampleBox i x y w h) = w"
  "el_height (sampleBox i x y w h) = h" "isDeleted (sampleBox i x y w h) = False"
  "variant (sampleBox i x y w h) = E_rectangle"
  "pathPoints (sampleBox i x y w h) = None"
  by (simp_all add: sampleBox_def createBase_def pathPoints_def)

lemma sampleBox_move:
  "(sampleBox i x y w h)\<lparr>el_x := x', el_y := y'\<rparr> = sampleBox i x' y' w h"
  by (simp add: sampleBox_def createBase_def)

lemma sampleDraw_simps:
  "editingTextId (sampleDraw t) = None" "tool (sampleDraw t) = t"
  "\<not> isSpace (sampleDraw t)" "elements (sampleDraw t) = []"
  "viewport (sampleDraw t) = \<lparr>zoom = 1, offsetX = 0, offsetY = 0\<rparr>"
  "properties (sampleDraw t) = sampleProps" "selectedIds (sampleDraw t) = []"
  by (simp_all add: sampleDraw_def initialState_def)

lemma sample_world:
  "clientToWorld (clientX (mouseAt x y b)) (clientY (mouseAt x y b)) sampleRect
     \<lparr>zoom = 1, offsetX = 0, offsetY = 0\<rparr> = (x, y)"
  by (simp add: clientToWorld_def mouseAt_def sampleRect_def)

lemma mouseMoves_Nil: "mouseMoves rect [] s = Inr s"
  by (simp add: mouseMoves_def)

lemma mouseMoves_snoc:
  "mouseMoves rect (evs @ [e]) s = andThen (mouseMoves rect evs s) (onMouseMove rect e)"
  by (simp add: mouseMoves_def)

lemma mouseMoves_single: "mouseMoves rect [e] s = onMouseMove rect e s"
  by (simp add: mouseMoves_def andThen_def)

lemma andThen_Inr: "andThen (Inr v) f = f v"
  by (simp add: andThen_def)

lemma moveElement_id: "el_id (moveElement orig dx dy el) = el_id el"
  by (simp add: moveElement_def split: option.splits)

lemma moveElement_twice:
  "moveElement orig dx dy (moveElement orig dx' dy' el) = moveElement orig dx dy el"
  by (simp add: moveElement_def split: option.splits)

lemma onMouseMove_Moving:
  assumes "interaction s = Moving startX startY orig"
  shows "onMouseMove rect e s
         = Inr (s\<lparr>elements :=
                    map (moveElement orig
                           (fst (clientToWorld (clientX e) (clientY e) rect (viewport s)) - startX)
                           (snd (clientToWorld (clientX e) (clientY e) rect (viewport s)) - startY))
                      (elements s)\<rparr>)"
  using assms by (simp add: onMouseMove_def Let_def)

lemma mouseMoves_Moving:
  assumes "interaction s = Moving startX startY orig" and "evs \<noteq> []"
  shows "mouseMoves rect evs s = onMouseMove rect (last evs) s"
  using assms(2)
proof (induction evs rule: rev_induct)
  case Nil
  then show ?case by simp
next
  case (snoc e evs)
  show ?case
  proof (cases "evs = []")
    case True
    then show ?thesis by (simp add: mouseMoves_single)
  next
    case False
    let ?s1 = "s\<lparr>elements :=
                    map (moveElement orig
                           (fst (clientToWorld (clientX (last evs)) (clientY (last evs)) rect (viewport s)) - startX)
                           (snd (clientToWorld (clientX (last evs)) (clientY (last evs)) rect (viewport s)) - startY))
                      (elements s)\<rparr>"
    from snoc.IH False have prev: "mouseMoves rect evs s = Inr ?s1"
      by (simp add: onMouseMove_Moving [OF assms(1)])
    have i1: "interaction ?s1 = Moving startX startY orig" using assms(1) by simp
    have "onMouseMove rect e ?s1 = onMouseMove rect e s"
      by (simp add: onMouseMove_Moving [OF i1] onMouseMove_Moving [OF assms(1)]
            moveElement_twice comp_def)
    then show ?thesis by (simp add: mouseMoves_snoc prev andThen_Inr)
  qed
qed

lemma handleMouseDown_shape:
  assumes "editingTextId s = None \<or> editingTextId s = Some []"
    and "tool s = T_rectangle \<or> tool s = T_ellipse \<or> tool s = T_diamond
         \<or> tool s = T_arrow \<or> tool s = T_line"
    and "button down = 0" and "\<not> isSpace s"
    and "clientToWorld (clientX down) (clientY down) rect (viewport s) = (x1, y1)"
  shows "\<exists>el0. createElement newId newSeed (tool s) x1 y1 (properties s) = Inr el0
           \<and> handleMouseDown env rect newId newSeed down s
               = Inr (s\<lparr>drawingEl := Some el0, interaction := Drawing x1 y1\<rparr>)"
proof -
  have core: "tool s = t \<Longrightarrow> editingTextId s = ed \<Longrightarrow> ed = None \<or> ed = Some []
      \<Longrightarrow> t = T_rectangle \<or> t = T_ellipse \<or> t = T_diamond \<or> t = T_arrow \<or> t = T_line
      \<Longrightarrow> ?thesis" for t ed
    using assms(3,4,5)
    by (elim disjE) (simp_all add: handleMouseDown_def Let_def createElement_def)
  show ?thesis using core [OF refl refl assms(1) assms(2)] .
qed

lemma onMouseMove_Drawing_box:
  assumes "interaction s = Drawing startX startY" and "drawingEl s = Some el"
    and "variant el = E_rectangle \<or> variant el = E_ellipse \<or> variant el = E_diamond"
    and "clientToWorld (clientX e) (clientY e) rect (viewport s) = (wx, wy)"
  shows "onMouseMove rect e s
         = Inr (s\<lparr>drawingEl := Some (el\<lparr>el_x := min startX wx, el_y := min startY wy,
                                        el_width := \<bar>wx - startX\<bar>,
                                        el_height := \<bar>wy - startY\<bar>\<rparr>)\<rparr>)"
  using assms by (auto simp add: onMouseMove_def Let_def normalizeRect_def)

lemma mouseMoves_Drawing_box:
  assumes "interaction s = Drawing startX startY" and "drawingEl s = Some el"
    and "variant el = E_rectangle \<or> variant el = E_ellipse \<or> variant el = E_diamond"
    and "evs \<noteq> []"
  shows "mouseMoves rect evs s = onMouseMove rect (last evs) s"
  using assms(4)
proof (induction evs rule: rev_induct)
  case Nil
  then show ?case by simp
next
  case (snoc e evs)
  show ?case
  proof (cases "evs = []")
    case True
    then show ?thesis by (simp add: mouseMoves_single)
  next
    case False
    obtain wx wy where w: "clientToWorld (clientX (last evs)) (clientY (last evs)) rect (viewport s) = (wx, wy)"
      by (cases "clientToWorld (clientX (last evs)) (clientY (last evs)) rect (viewport s)")
    obtain vx vy where v: "clientToWorld (clientX e) (clientY e) rect (viewport s) = (vx, vy)"
      by (cases "clientToWorld (clientX e) (clientY e) rect (viewport s)")
    let ?el1 = "el\<lparr>el_x := min startX wx, el_y := min startY wy,
                    el_width := \<bar>wx - startX\<bar>, el_height := \<bar>wy - startY\<bar>\<rparr>"
    let ?s1 = "s\<lparr>drawingEl := Some ?el1\<rparr>"
    from snoc.IH False have prev: "mouseMoves rect evs s = Inr ?s1"
      by (simp add: onMouseMove_Drawing_box [OF assms(1,2,3) w])
    have i1: "interaction ?s1 = Drawing startX startY" using assms(1) by simp
    have d1: "drawingEl ?s1 = Some ?el1" by simp
    have v1: "variant ?el1 = E_rectangle \<or> variant ?el1 = E_ellipse \<or> variant ?el1 = E_diamond"
      using assms(3) by simp
    have vv: "clientToWorld (clientX e) (clientY e) rect (viewport ?s1) = (vx, vy)"
      using v by simp
    have "onMouseMove rect e ?s1 = onMouseMove rect e s"
      by (simp add: onMouseMove_Drawing_box [OF i1 d1 v1 vv]
            onMouseMove_Drawing_box [OF assms(1,2,3) v])
    then show ?thesis by (simp add: mouseMoves_snoc prev andThen_Inr)
  qed
qed

lemma createElement_box:
  assumes "t = T_rectangle \<or> t = T_ellipse \<or> t = T_diamond"
    and "createElement newId newSeed t x1 y1 props = Inr el0"
  shows "(variant el0 = E_rectangle \<or> variant el0 = E_ellipse \<or> variant el0 = E_diamond)
         \<and> el_x el0 = x1 \<and> el_y el0 = y1 \<and> el_width el0 = 0 \<and> el_height el0 = 0
         \<and> el_id el0 = newId \<and> pathPoints el0 = None"
  using assms by (auto simp add: createElement_def createBase_def pathPoints_def)

lemma onMouseMove_Drawing_path:
  assumes "interaction s = Drawing startX startY" and "drawingEl s = Some el"
    and "clientToWorld (clientX e) (clientY e) rect (viewport s) = (wx, wy)"
  shows "variant el = E_arrow ps \<Longrightarrow> onMouseMove rect e s
         = Inr (s\<lparr>drawingEl := Some (el\<lparr>variant := E_arrow [(0, 0), (wx - el_x el, wy - el_y el)]\<rparr>)\<rparr>)"
    and "variant el = E_line ps \<Longrightarrow> onMouseMove rect e s
         = Inr (s\<lparr>drawingEl := Some (el\<lparr>variant := E_line [(0, 0), (wx - el_x el, wy - el_y el)]\<rparr>)\<rparr>)"
  using assms by (simp_all add: onMouseMove_def Let_def)

lemma mouseMoves_Drawing_path:
  assumes "interaction s = Drawing startX startY" and "drawingEl s = Some el"
    and "variant el = E_arrow ps \<or> variant el = E_line ps"
    and "evs \<noteq> []"
  shows "mouseMoves rect evs s = onMouseMove rect (last evs) s"
  using assms(4)
proof (induction evs rule: rev_induct)
  case Nil
  then show ?case by simp
next
  case (snoc e evs)
  show ?case
  proof (cases "evs = []")
    case True
    then show ?thesis by (simp add: mouseMoves_single)
  next
    case False
    obtain wx wy where w: "clientToWorld (clientX (last evs)) (clientY (last evs)) rect (viewport s) = (wx, wy)"
      by (cases "clientToWorld (clientX (last evs)) (clientY (last evs)) rect (viewport s)")
    obtain vx vy where v: "clientToWorld (clientX e) (clientY e) rect (viewport s) = (vx, vy)"
      by (cases "clientToWorld (clientX e) (clientY e) rect (viewport s)")
    from assms(3) show ?thesis
    proof
      assume a: "variant el = E_arrow ps"
      let ?el1 = "el\<lparr>variant := E_arrow [(0, 0), (wx - el_x el, wy - el_y el)]\<rparr>"
      let ?s1 = "s\<lparr>drawingEl := Some ?el1\<rparr>"
      from snoc.IH False have prev: "mouseMoves rect evs s = Inr ?s1"
        by (simp add: onMouseMove_Drawing_path(1) [OF assms(1,2) w a])
      have i1: "interaction ?s1 = Drawing startX startY" using assms(1) by simp
      have d1: "drawingEl ?s1 = Some ?el1" by simp
      have a1: "variant ?el1 = E_arrow [(0, 0), (wx - el_x el, wy - el_y el)]" by simp
      have vv: "clientToWorld (clientX e) (clientY e) rect (viewport ?s1) = (vx, vy)"
        using v by simp
      have "onMouseMove rect e ?s1 = onMouseMove rect e s"
        by (simp add: onMouseMove_Drawing_path(1) [OF i1 d1 vv a1]
              onMouseMove_Drawing_path(1) [OF assms(1,2) v a])
      then show ?thesis by (simp add: mouseMoves_snoc prev andThen_Inr)
    next
      assume a: "variant el = E_line ps"
      let ?el1 = "el\<lparr>variant := E_line [(0, 0), (wx - el_x el, wy - el_y el)]\<rparr>"
      let ?s1 = "s\<lparr>drawingEl := Some ?el1\<rparr>"
      from snoc.IH False have prev: "mouseMoves rect evs s = Inr ?s1"
        by (simp add: onMouseMove_Drawing_path(2) [OF assms(1,2) w a])
      have i1: "interaction ?s1 = Drawing startX startY" using assms(1) by simp
      have d1: "drawingEl ?s1 = Some ?el1" by simp
      have a1: "variant ?el1 = E_line [(0, 0), (wx - el_x el, wy - el_y el)]" by simp
      have vv: "clientToWorld (clientX e) (clientY e) rect (viewport ?s1) = (vx, vy)"
        using v by simp
      have "onMouseMove rect e ?s1 = onMouseMove rect e s"
        by (simp add: onMouseMove_Drawing_path(2) [OF i1 d1 vv a1]
              onMouseMove_Drawing_path(2) [OF assms(1,2) v a])
      then show ?thesis by (simp add: mouseMoves_snoc prev andThen_Inr)
    qed
  qed
qed

lemma createElement_path:
  assumes "t = T_arrow \<or> t = T_line"
    and "createElement newId newSeed t x1 y1 props = Inr el0"
  shows "variant el0 = (if t = T_arrow then E_arrow [(0, 0)] else E_line [(0, 0)])
         \<and> el_x el0 = x1 \<and> el_y el0 = y1 \<and> el_id el0 = newId
         \<and> pathPoints el0 = Some [(0, 0)]"
  using assms by (auto simp add: createElement_def createBase_def pathPoints_def)

lemma origPositionsOf_total:
  assumes "set ids \<subseteq> el_id ` set els"
  shows "\<exists>orig. origPositionsOf els ids = Inr orig \<and> map fst orig = ids"
  using assms
proof (induction ids)
  case Nil
  then show ?case by simp
next
  case (Cons i ids)
  then obtain orig where o: "origPositionsOf els ids = Inr orig" "map fst orig = ids"
    by auto
  from Cons.prems have "i \<in> el_id ` set els" by simp
  then have "find (\<lambda>el. el_id el = i) els \<noteq> None"
    by (auto simp add: find_None_iff)
  then obtain el where "find (\<lambda>el. el_id el = i) els = Some el" by auto
  with o show ?case by simp
qed

lemma origPositionsOf_captures:
  assumes "origPositionsOf els ids = Inr orig" and "(i, pos) \<in> set orig"
  shows "\<exists>el. find (\<lambda>el. el_id el = i) els = Some el \<and> pos = (el_x el, el_y el)"
  using assms
proof (induction ids arbitrary: orig)
  case Nil
  then show ?case by simp
next
  case (Cons j ids)
  then show ?case
    by (auto split: option.splits sum.splits)
qed

lemma find_Some_in_set: "find P xs = Some x \<Longrightarrow> x \<in> set xs"
  by (induction xs) (auto split: if_splits)

lemma getElementAtPoint_in_scene:
  "getElementAtPoint els px py th = Some hit \<Longrightarrow> hit \<in> set els"
  using find_Some_in_set [of _ "rev els" hit] by (simp add: getElementAtPoint_def)

lemma select_click_semantics:
  assumes nh: "getHandleAtScreenPoint (clientX e - dom_left rect) (clientY e - dom_top rect)
                 (elements s) (selectedIds s) (viewport s) = None"
    and hit: "getElementAtPoint (elements s) (fst world) (snd world) HIT_THRESHOLD = Some hit"
    and nd: "\<not> (detail e = 2 \<and> isText hit)"
    and ok: "set (selectedIds s) \<subseteq> el_id ` set (elements s)"
    and post: "post = (if shiftKey e
                       then (if el_id hit \<in> set (selectedIds s)
                             then Set_delete (selectedIds s) (el_id hit)
                             else Set_add (selectedIds s) (el_id hit))
                       else if el_id hit \<in> set (selectedIds s) then selectedIds s
                       else [el_id hit])"
    and active: "active = (if shiftKey e then Set_add (selectedIds s) (el_id hit)
                           else if el_id hit \<in> set (selectedIds s) then selectedIds s
                           else [el_id hit])"
  shows "\<exists>orig. mouseDownSelect rect e world s
                  = Inr (s\<lparr>selectedIds := post,
                           interaction := Moving (fst world) (snd world) orig\<rparr>)
                \<and> map fst orig = active"
    and "set active = set post \<longleftrightarrow> \<not> (shiftKey e \<and> el_id hit \<in> set (selectedIds s))"
proof -
  have hin: "el_id hit \<in> el_id ` set (elements s)"
    using getElementAtPoint_in_scene [OF hit] by simp
  have "set active \<subseteq> el_id ` set (elements s)"
    using ok hin by (auto simp add: active Set_add_def)
  from origPositionsOf_total [OF this]
  obtain orig where o: "origPositionsOf (elements s) active = Inr orig" "map fst orig = active"
    by blast
  have nd': "(detail e = 2 \<and> isText hit) = False" using nd by simp
  have "mouseDownSelect rect e world s
          = Inr (s\<lparr>selectedIds := post, interaction := Moving (fst world) (snd world) orig\<rparr>)"
  proof (cases "shiftKey e")
    case True
    with o(1) have o': "origPositionsOf (elements s) (Set_add (selectedIds s) (el_id hit))
                          = Inr orig"
      by (simp add: active)
    show ?thesis
      using True
      by (simp add: mouseDownSelect_def Let_def nh hit nd' o' post Set_has_def)
  next
    case False
    show ?thesis
    proof (cases "el_id hit \<in> set (selectedIds s)")
      case True
      with False o(1) have o': "origPositionsOf (elements s) (selectedIds s) = Inr orig"
        by (simp add: active)
      show ?thesis
        using False True
        by (simp add: mouseDownSelect_def Let_def nh hit nd' o' post Set_has_def)
    next
      case F: False
      with False o(1) have o': "origPositionsOf (elements s) [el_id hit] = Inr orig"
        by (simp add: active)
      show ?thesis
        using False F
        by (simp add: mouseDownSelect_def Let_def nh hit nd' post Set_has_def
              o' [simplified])
    qed
  qed
  with o(2) show "\<exists>orig. mouseDownSelect rect e world s
                  = Inr (s\<lparr>selectedIds := post,
                           interaction := Moving (fst world) (snd world) orig\<rparr>)
                \<and> map fst orig = active"
    by blast
  show "set active = set post \<longleftrightarrow> \<not> (shiftKey e \<and> el_id hit \<in> set (selectedIds s))"
    by (auto simp add: post active Set_add_def Set_delete_def)
qed

lemma sampleTwo_down:
  "handleMouseDown sampleEnv sampleRect ''n'' 0 (mouseAt 250 50 True) sampleTwo
     = Inr (sampleTwo\<lparr>selectedIds := [''a''],
                      interaction := Moving 250 50 [(''a'', (0, 0)), (''b'', (200, 0))]\<rparr>)"
  by (simp add: handleMouseDown_def mouseDownSelect_def sampleTwo_def initialState_def
        mouseAt_def sampleRect_def clientToWorld_def getHandleAtScreenPoint_def
        getElementAtPoint_def isPointInElement_def sampleBox_simps HIT_THRESHOLD_def
        Set_has_def Set_add_def Set_delete_def isText_def Let_def)

subsection \<open>History\<close>

text \<open>
  C1. The history is a linear stack that discards the redo branch. From any history state,
  after \<open>push(A); push(B); undo()\<close> the scene is \<open>A\<close> and a following \<open>redo()\<close> makes it
  \<open>B\<close>; a \<open>push(C)\<close> after that \<open>undo()\<close> drops \<open>B\<close> and makes \<open>redo()\<close> a no-op. \<open>undo()\<close>
  at cursor 0 and \<open>redo()\<close> at the last index change nothing. Every \<open>push(C)\<close> stores the
  sequence up to the cursor followed by \<open>C\<close> and leaves the cursor at the last index, so
  that a following \<open>redo()\<close> changes nothing.
\<close>

theorem history_linear_branch_discarding:
  "(\<exists>s1. undo (pushHistory B (pushHistory A s)) = Inr s1
         \<and> elements s1 = A
         \<and> elements (redo s1) = B
         \<and> redo (pushHistory C s1) = pushHistory C s1
         \<and> stack (history (pushHistory C s1))
             = take (index (history s) + 1) (stack (history s)) @ [A, C])
   \<and> (index (history s) = 0 \<longrightarrow> undo s = Inr s)
   \<and> (index (history s) + 1 = length (stack (history s)) \<longrightarrow> redo s = s)
   \<and> stack (history (pushHistory C s))
        = take (index (history s) + 1) (stack (history s)) @ [C]
   \<and> index (history (pushHistory C s)) + 1 = length (stack (history (pushHistory C s)))
   \<and> redo (pushHistory C s) = pushHistory C s"
proof -
  define pre where "pre = take (index (history s) + 1) (stack (history s))"
  let ?s2 = "pushHistory B (pushHistory A s)"
  have h0: "history (pushHistory A s) = \<lparr>stack = pre @ [A], index = length pre\<rparr>"
    by (simp add: pushHistory_history pre_def)
  have h2: "history ?s2 = \<lparr>stack = pre @ [A, B], index = Suc (length pre)\<rparr>"
    using pushHistory_at_end [OF h0] .
  define s1 where "s1 = ?s2\<lparr>history := (history ?s2)\<lparr>index := length pre\<rparr>,
                     elements := A, selectedIds := [],
                     canUndo := (length pre > 0), canRedo := True\<rparr>"
  have u: "undo ?s2 = Inr s1"
    by (simp add: undo_def h2 s1_def Let_def nth_append)
  have h1: "history s1 = \<lparr>stack = pre @ [A, B], index = length pre\<rparr>"
    by (simp add: s1_def h2)
  have e1: "elements s1 = A" by (simp add: s1_def)
  have r1: "elements (redo s1) = B"
    by (simp add: redo_def h1 Let_def nth_append)
  have c1: "stack (history (pushHistory C s1)) = pre @ [A, C]"
    by (simp add: pushHistory_history h1)
  have first: "\<exists>s1. undo ?s2 = Inr s1 \<and> elements s1 = A \<and> elements (redo s1) = B
         \<and> redo (pushHistory C s1) = pushHistory C s1
         \<and> stack (history (pushHistory C s1)) = pre @ [A, C]"
    using u e1 r1 c1 redo_after_push by blast
  have u0: "index (history s) = 0 \<longrightarrow> undo s = Inr s"
    by (simp add: undo_def)
  have rl: "index (history s) + 1 = length (stack (history s)) \<longrightarrow> redo s = s"
    by (auto simp add: redo_def)
  have last: "index (history (pushHistory C s)) + 1 = length (stack (history (pushHistory C s)))"
    by (simp add: pushHistory_history)
  have st: "stack (history (pushHistory C s)) = pre @ [C]"
    by (simp add: pushHistory_history pre_def)
  show ?thesis
    using first u0 rl last st redo_after_push [of C s]
    unfolding pre_def by blast
qed


theorem history_linear_branch_discarding_witness:
  "index (history (initialState sampleProps)) = 0
   \<and> undo (initialState sampleProps) = Inr (initialState sampleProps)
   \<and> index (history (initialState sampleProps)) + 1
       = length (stack (history (initialState sampleProps)))
   \<and> redo (initialState sampleProps) = initialState sampleProps
   \<and> (\<exists>s1. undo (pushHistory [sampleBox ''a'' 0 0 10 10, sampleBox ''b'' 5 5 10 10]
                (pushHistory [sampleBox ''a'' 0 0 10 10] (initialState sampleProps))) = Inr s1
          \<and> elements s1 = [sampleBox ''a'' 0 0 10 10]
          \<and> elements (redo s1) = [sampleBox ''a'' 0 0 10 10, sampleBox ''b'' 5 5 10 10]
          \<and> redo (pushHistory [] s1) = pushHistory [] s1
          \<and> stack (history (pushHistory [] s1)) = [[], [sampleBox ''a'' 0 0 10 10], []])"
  using history_linear_branch_discarding
    [of "[sampleBox ''a'' 0 0 10 10, sampleBox ''b'' 5 5 10 10]"
        "[sampleBox ''a'' 0 0 10 10]" "initialState sampleProps" "[]"]
  by (simp add: initialState_def)

subsection \<open>Resize\<close>

text \<open>
  C7, as the code has it. A 100 by 100 box resized by (10, 10) at \<open>nw\<close> has its origin
  shifted by 10 on both axes and is 90 by 90; at \<open>se\<close> it keeps its origin and is 110 by
  110. For every box, handle and delta the resulting width and height are at least 2:
  each is the changed size floored at 2, and nothing else is clamped. While no size is
  floored, exactly the edges that the handle names move: a west or north handle moves the
  origin by the delta and keeps the opposite edge, and the axis that the handle does not
  name is kept. When a size is floored, an east or south handle keeps the origin, so the
  dragged edge stays 2 from it; a west or north handle still moves the origin by the whole
  delta, so the box keeps the size 2 and its opposite edge moves along.
\<close>

theorem applyResize_floor_and_edges:
  "applyResize \<lparr>rect_x = x0, rect_y = y0, rect_width = 100, rect_height = 100\<rparr> H_nw 10 10
     = \<lparr>rect_x = x0 + 10, rect_y = y0 + 10, rect_width = 90, rect_height = 90\<rparr>
   \<and> applyResize \<lparr>rect_x = x0, rect_y = y0, rect_width = 100, rect_height = 100\<rparr> H_se 10 10
     = \<lparr>rect_x = x0, rect_y = y0, rect_width = 110, rect_height = 110\<rparr>
   \<and> rect_width (applyResize orig h dx dy) \<ge> 2
   \<and> rect_height (applyResize orig h dx dy) \<ge> 2
   \<and> rect_x (applyResize orig h dx dy)
       = rect_x orig + (if h \<in> {H_nw, H_sw, H_w} then dx else 0)
   \<and> rect_y (applyResize orig h dx dy)
       = rect_y orig + (if h \<in> {H_nw, H_n, H_ne} then dy else 0)
   \<and> rect_width (applyResize orig h dx dy)
       = max 2 (rect_width orig
                + (if h \<in> {H_nw, H_sw, H_w} then - dx
                   else if h \<in> {H_ne, H_e, H_se} then dx else 0))
   \<and> rect_height (applyResize orig h dx dy)
       = max 2 (rect_height orig
                + (if h \<in> {H_nw, H_n, H_ne} then - dy
                   else if h \<in> {H_se, H_s, H_sw} then dy else 0))
   \<and> (h \<in> {H_nw, H_sw, H_w} \<and> rect_width orig - dx \<ge> 2 \<longrightarrow>
        rect_x (applyResize orig h dx dy) = rect_x orig + dx
        \<and> rect_x (applyResize orig h dx dy) + rect_width (applyResize orig h dx dy)
            = rect_x orig + rect_width orig)
   \<and> (h \<in> {H_nw, H_n, H_ne} \<and> rect_height orig - dy \<ge> 2 \<longrightarrow>
        rect_y (applyResize orig h dx dy) = rect_y orig + dy
        \<and> rect_y (applyResize orig h dx dy) + rect_height (applyResize orig h dx dy)
            = rect_y orig + rect_height orig)
   \<and> (h \<in> {H_ne, H_e, H_se} \<longrightarrow>
        rect_x (applyResize orig h dx dy) = rect_x orig
        \<and> rect_x (applyResize orig h dx dy) + rect_width (applyResize orig h dx dy)
            = rect_x orig + max 2 (rect_width orig + dx))
   \<and> (h \<in> {H_se, H_s, H_sw} \<longrightarrow>
        rect_y (applyResize orig h dx dy) = rect_y orig
        \<and> rect_y (applyResize orig h dx dy) + rect_height (applyResize orig h dx dy)
            = rect_y orig + max 2 (rect_height orig + dy))
   \<and> (h \<in> {H_n, H_s} \<and> rect_width orig \<ge> 2 \<longrightarrow>
        rect_x (applyResize orig h dx dy) = rect_x orig
        \<and> rect_width (applyResize orig h dx dy) = rect_width orig)
   \<and> (h \<in> {H_e, H_w} \<and> rect_height orig \<ge> 2 \<longrightarrow>
        rect_y (applyResize orig h dx dy) = rect_y orig
        \<and> rect_height (applyResize orig h dx dy) = rect_height orig)"
  by (cases h) (simp_all add: applyResize_def)

theorem applyResize_floor_and_edges_witness:
  "H_nw \<in> {H_nw, H_sw, H_w} \<and> H_nw \<in> {H_nw, H_n, H_ne}
   \<and> (100 :: real) - 10 \<ge> 2
   \<and> applyResize \<lparr>rect_x = 5, rect_y = 7, rect_width = 100, rect_height = 100\<rparr> H_nw 10 10
     = \<lparr>rect_x = 15, rect_y = 17, rect_width = 90, rect_height = 90\<rparr>
   \<and> rect_x (applyResize \<lparr>rect_x = 5, rect_y = 7, rect_width = 100, rect_height = 100\<rparr>
               H_nw 10 10)
       + rect_width (applyResize \<lparr>rect_x = 5, rect_y = 7, rect_width = 100, rect_height = 100\<rparr>
               H_nw 10 10) = 105
   \<and> applyResize \<lparr>rect_x = 5, rect_y = 7, rect_width = 100, rect_height = 100\<rparr> H_se 10 10
     = \<lparr>rect_x = 5, rect_y = 7, rect_width = 110, rect_height = 110\<rparr>
   \<and> H_e \<in> {H_ne, H_e, H_se} \<and> H_e \<in> {H_e, H_w} \<and> (100 :: real) \<ge> 2
   \<and> applyResize \<lparr>rect_x = 5, rect_y = 7, rect_width = 100, rect_height = 100\<rparr> H_e (- 150) 0
     = \<lparr>rect_x = 5, rect_y = 7, rect_width = 2, rect_height = 100\<rparr>"
proof -
  let ?b = "\<lparr>rect_x = 5, rect_y = 7, rect_width = 100, rect_height = 100\<rparr>"
  have nw: "applyResize ?b H_nw 10 10
              = \<lparr>rect_x = 15, rect_y = 17, rect_width = 90, rect_height = 90\<rparr>"
       and se: "applyResize ?b H_se 10 10
              = \<lparr>rect_x = 5, rect_y = 7, rect_width = 110, rect_height = 110\<rparr>"
    using applyResize_floor_and_edges [of 5 7 ?b H_nw 10 10] by simp_all
  have e: "applyResize ?b H_e (- 150) 0
              = \<lparr>rect_x = 5, rect_y = 7, rect_width = 2, rect_height = 100\<rparr>"
    using applyResize_floor_and_edges [of 5 7 ?b H_e "- 150" 0]
    by (cases "applyResize ?b H_e (- 150) 0") simp
  show ?thesis unfolding nw se e by simp
qed

text \<open>
  C7 as stated fails: the \<open>w\<close> handle names the west edge only, but dragging it by 150
  across a box 100 wide puts the origin at 155 with width 2, so the east edge moves from
  105 to 157 and no edge is locked.
\<close>

theorem applyResize_west_past_minimum_counterexample:
  "rect_x \<lparr>rect_x = 5, rect_y = 7, rect_width = 100, rect_height = 100\<rparr>
     + rect_width \<lparr>rect_x = 5, rect_y = 7, rect_width = 100, rect_height = 100\<rparr> = 105
   \<and> applyResize \<lparr>rect_x = 5, rect_y = 7, rect_width = 100, rect_height = 100\<rparr> H_w 150 0
     = \<lparr>rect_x = 155, rect_y = 7, rect_width = 2, rect_height = 100\<rparr>
   \<and> rect_x (applyResize \<lparr>rect_x = 5, rect_y = 7, rect_width = 100, rect_height = 100\<rparr>
               H_w 150 0)
       + rect_width (applyResize \<lparr>rect_x = 5, rect_y = 7, rect_width = 100, rect_height = 100\<rparr>
               H_w 150 0) = 157"
  by (simp add: applyResize_def)

subsection \<open>Undo and redo reset the selection\<close>

text \<open>
  C10. Whenever \<open>undo()\<close> or \<open>redo()\<close> moves the history cursor, the selection becomes
  empty and the scene becomes the stored snapshot at the new cursor; the stored sequence
  is unchanged. With the cursor inside the sequence, \<open>undo()\<close> at a cursor above 0 and
  \<open>redo()\<close> at a cursor below the last index return and do move the cursor.
\<close>

theorem undo_redo_clear_selection:
  "(undo s = Inr s' \<and> index (history s') \<noteq> index (history s)
      \<longrightarrow> selectedIds s' = []
          \<and> elements s' = stack (history s) ! index (history s')
          \<and> index (history s') = index (history s) - 1
          \<and> stack (history s') = stack (history s))
   \<and> (index (history (redo s)) \<noteq> index (history s)
      \<longrightarrow> selectedIds (redo s) = []
          \<and> elements (redo s) = stack (history s) ! index (history (redo s))
          \<and> index (history (redo s)) = index (history s) + 1
          \<and> stack (history (redo s)) = stack (history s))
   \<and> (historyOk (history s) \<and> 0 < index (history s)
      \<longrightarrow> (\<exists>s1. undo s = Inr s1 \<and> index (history s1) \<noteq> index (history s)
                \<and> historyOk (history s1)))
   \<and> (historyOk (history s) \<and> index (history s) + 1 < length (stack (history s))
      \<longrightarrow> index (history (redo s)) \<noteq> index (history s) \<and> historyOk (history (redo s)))"
proof -
  have a: "undo s = Inr s' \<and> index (history s') \<noteq> index (history s)
      \<longrightarrow> selectedIds s' = []
          \<and> elements s' = stack (history s) ! index (history s')
          \<and> index (history s') = index (history s) - 1
          \<and> stack (history s') = stack (history s)"
    by (auto simp add: undo_def Let_def split: if_splits)
  have b: "index (history (redo s)) \<noteq> index (history s)
      \<longrightarrow> selectedIds (redo s) = []
          \<and> elements (redo s) = stack (history s) ! index (history (redo s))
          \<and> index (history (redo s)) = index (history s) + 1
          \<and> stack (history (redo s)) = stack (history s)"
    by (auto simp add: redo_def Let_def split: if_splits)
  have c: "historyOk (history s) \<and> 0 < index (history s)
      \<longrightarrow> (\<exists>s1. undo s = Inr s1 \<and> index (history s1) \<noteq> index (history s)
                \<and> historyOk (history s1))"
    by (auto simp add: undo_def Let_def historyOk_def)
  have d: "historyOk (history s) \<and> index (history s) + 1 < length (stack (history s))
      \<longrightarrow> index (history (redo s)) \<noteq> index (history s) \<and> historyOk (history (redo s))"
    by (auto simp add: redo_def Let_def historyOk_def)
  show ?thesis using a b c d by blast
qed

theorem undo_redo_clear_selection_witness:
  "historyOk (history sampleMidHistory) \<and> 0 < index (history sampleMidHistory)
   \<and> index (history sampleMidHistory) + 1 < length (stack (history sampleMidHistory))
   \<and> selectedIds sampleMidHistory = [''a'']
   \<and> (\<exists>s1. undo sampleMidHistory = Inr s1 \<and> index (history s1) = 0
          \<and> selectedIds s1 = [] \<and> elements s1 = [])
   \<and> index (history (redo sampleMidHistory)) = 2
   \<and> selectedIds (redo sampleMidHistory) = []
   \<and> elements (redo sampleMidHistory)
       = [sampleBox ''a'' 0 0 10 10, sampleBox ''b'' 50 50 10 10]"
proof -
  have ok: "historyOk (history sampleMidHistory) \<and> 0 < index (history sampleMidHistory)"
    by (simp add: sampleMidHistory_def initialState_def historyOk_def)
  have lt: "index (history sampleMidHistory) + 1 < length (stack (history sampleMidHistory))"
    by (simp add: sampleMidHistory_def initialState_def)
  have st: "stack (history sampleMidHistory)
              = [[], [sampleBox ''a'' 0 0 10 10],
                 [sampleBox ''a'' 0 0 10 10, sampleBox ''b'' 50 50 10 10]]"
           "index (history sampleMidHistory) = 1"
           "selectedIds sampleMidHistory = [''a'']"
    by (simp_all add: sampleMidHistory_def initialState_def)
  from undo_redo_clear_selection [of sampleMidHistory] ok
  obtain s1 where u: "undo sampleMidHistory = Inr s1"
      "index (history s1) \<noteq> index (history sampleMidHistory)"
    by blast
  from undo_redo_clear_selection [of sampleMidHistory s1] u st
  have u1: "index (history s1) = 0 \<and> selectedIds s1 = [] \<and> elements s1 = []"
    by simp
  from undo_redo_clear_selection [of sampleMidHistory s1] ok lt st
  have r0: "index (history (redo sampleMidHistory)) = Suc (Suc 0)
            \<and> selectedIds (redo sampleMidHistory) = []
            \<and> elements (redo sampleMidHistory)
                = [[], [sampleBox ''a'' 0 0 10 10],
                   [sampleBox ''a'' 0 0 10 10, sampleBox ''b'' 50 50 10 10]]
                  ! index (history (redo sampleMidHistory))"
    by simp
  then have r1: "index (history (redo sampleMidHistory)) = 2
            \<and> selectedIds (redo sampleMidHistory) = []
            \<and> elements (redo sampleMidHistory)
                = [sampleBox ''a'' 0 0 10 10, sampleBox ''b'' 50 50 10 10]"
    by simp
  show ?thesis using ok lt st u u1 r1 by blast
qed

subsection \<open>Zoom around a screen point\<close>

text \<open>
  C2. For every viewport with a zoom other than 0, every screen point \<open>(cx, cy)\<close> and every
  requested zoom \<open>z\<close>, \<open>zoomAround\<close> writes a viewport whose zoom is \<open>z\<close> clamped to
  \<open>[MIN_ZOOM, MAX_ZOOM]\<close> (so \<open>z\<close> itself when it is within the bounds) and whose offsets are
  \<open>offset + screenCoord * (1/oldZoom - 1/newZoom)\<close> on each axis; the world point under
  \<open>(cx, cy)\<close> is the same before and after, over exact arithmetic. The division of the
  source is not defined at zoom 0, which no viewport of the application has.
\<close>

theorem zoomAround_keeps_point_fixed:
  assumes "zoom (viewport s) \<noteq> 0"
  shows "zoomAround cx cy z s
           = s\<lparr>viewport :=
                 \<lparr>zoom = max MIN_ZOOM (min MAX_ZOOM z),
                  offsetX = offsetX (viewport s)
                            + cx * (1 / zoom (viewport s) - 1 / max MIN_ZOOM (min MAX_ZOOM z)),
                  offsetY = offsetY (viewport s)
                            + cy * (1 / zoom (viewport s) - 1 / max MIN_ZOOM (min MAX_ZOOM z))\<rparr>\<rparr>
         \<and> MIN_ZOOM \<le> zoom (viewport (zoomAround cx cy z s))
         \<and> zoom (viewport (zoomAround cx cy z s)) \<le> MAX_ZOOM
         \<and> (MIN_ZOOM \<le> z \<and> z \<le> MAX_ZOOM \<longrightarrow> zoom (viewport (zoomAround cx cy z s)) = z)
         \<and> clientToWorld (dom_left rect + cx) (dom_top rect + cy) rect
              (viewport (zoomAround cx cy z s))
            = clientToWorld (dom_left rect + cx) (dom_top rect + cy) rect (viewport s)"
proof -
  let ?c = "max MIN_ZOOM (min MAX_ZOOM z)"
  have eq: "zoomAround cx cy z s
           = s\<lparr>viewport :=
                 \<lparr>zoom = ?c,
                  offsetX = offsetX (viewport s) + cx * (1 / zoom (viewport s) - 1 / ?c),
                  offsetY = offsetY (viewport s) + cy * (1 / zoom (viewport s) - 1 / ?c)\<rparr>\<rparr>"
    by (simp add: zoomAround_def Let_def)
  have lo: "MIN_ZOOM \<le> ?c" by simp
  have hi: "?c \<le> MAX_ZOOM" by (simp add: MIN_ZOOM_def MAX_ZOOM_def)
  have pos: "?c \<noteq> 0" using lo by (simp add: MIN_ZOOM_def)
  have inb: "MIN_ZOOM \<le> z \<and> z \<le> MAX_ZOOM \<longrightarrow> ?c = z" by auto
  have same: "clientToWorld (dom_left rect + cx) (dom_top rect + cy) rect
              (viewport (zoomAround cx cy z s))
            = clientToWorld (dom_left rect + cx) (dom_top rect + cy) rect (viewport s)"
    unfolding eq by (simp add: clientToWorld_def algebra_simps)
  show ?thesis using eq lo hi inb same by simp
qed

theorem zoomAround_keeps_point_fixed_witness:
  "zoom (viewport (initialState sampleProps)) \<noteq> 0
   \<and> viewport (zoomAround 100 50 2 (initialState sampleProps))
       = \<lparr>zoom = 2, offsetX = 50, offsetY = 25\<rparr>
   \<and> clientToWorld 100 50 sampleRect (viewport (zoomAround 100 50 2 (initialState sampleProps)))
       = (100, 50)
   \<and> clientToWorld 100 50 sampleRect (viewport (initialState sampleProps)) = (100, 50)
   \<and> zoom (viewport (zoomAround 100 50 1000 (initialState sampleProps))) = MAX_ZOOM"
  using zoomAround_keeps_point_fixed [of "initialState sampleProps" 100 50 2 sampleRect]
    zoomAround_keeps_point_fixed [of "initialState sampleProps" 100 50 1000 sampleRect]
  by (simp add: initialState_def sampleRect_def clientToWorld_def MIN_ZOOM_def MAX_ZOOM_def)

subsection \<open>Rubber-band containment\<close>

text \<open>
  C8. \<open>getElementsInRect\<close> returns, in scene order, exactly the elements that are not
  soft-deleted and whose whole bounds lie inside the query rectangle: the bounds' minimum
  corner is at or after the rectangle's and their maximum corner at or before the
  rectangle's, on both axes. For a box-like element the bounds are its stored box; for a
  path-like element with points, every point lies inside the rectangle. An element only
  partly inside, or a soft-deleted one, is never returned.
\<close>

theorem getElementsInRect_full_containment:
  "getElementsInRect els rx ry rw rh
     = filter (\<lambda>el. \<not> isDeleted el
                 \<and> rx \<le> rect_x (getElementBounds el)
                 \<and> ry \<le> rect_y (getElementBounds el)
                 \<and> rect_x (getElementBounds el) + rect_width (getElementBounds el) \<le> rx + rw
                 \<and> rect_y (getElementBounds el) + rect_height (getElementBounds el) \<le> ry + rh)
         els
   \<and> (el \<in> set (getElementsInRect els rx ry rw rh) \<longleftrightarrow>
        el \<in> set els \<and> \<not> isDeleted el
        \<and> rx \<le> rect_x (getElementBounds el)
        \<and> ry \<le> rect_y (getElementBounds el)
        \<and> rect_x (getElementBounds el) + rect_width (getElementBounds el) \<le> rx + rw
        \<and> rect_y (getElementBounds el) + rect_height (getElementBounds el) \<le> ry + rh)
   \<and> (pathPoints el = None \<longrightarrow>
        (el \<in> set (getElementsInRect els rx ry rw rh) \<longleftrightarrow>
           el \<in> set els \<and> \<not> isDeleted el
           \<and> rx \<le> el_x el \<and> ry \<le> el_y el
           \<and> el_x el + el_width el \<le> rx + rw \<and> el_y el + el_height el \<le> ry + rh))
   \<and> (pathPoints el = Some (p # ps) \<longrightarrow>
        (el \<in> set (getElementsInRect els rx ry rw rh) \<longleftrightarrow>
           el \<in> set els \<and> \<not> isDeleted el
           \<and> list_all (\<lambda>q. rx \<le> el_x el + fst q \<and> el_x el + fst q \<le> rx + rw
                          \<and> ry \<le> el_y el + snd q \<and> el_y el + snd q \<le> ry + rh) (p # ps)))"
proof -
  have eq: "getElementsInRect els rx ry rw rh
     = filter (\<lambda>el. \<not> isDeleted el
                 \<and> rx \<le> rect_x (getElementBounds el)
                 \<and> ry \<le> rect_y (getElementBounds el)
                 \<and> rect_x (getElementBounds el) + rect_width (getElementBounds el) \<le> rx + rw
                 \<and> rect_y (getElementBounds el) + rect_height (getElementBounds el) \<le> ry + rh)
         els"
    unfolding getElementsInRect_def by (rule filter_cong) (auto simp add: Let_def)
  have mem: "el \<in> set (getElementsInRect els rx ry rw rh) \<longleftrightarrow>
        el \<in> set els \<and> \<not> isDeleted el
        \<and> rx \<le> rect_x (getElementBounds el)
        \<and> ry \<le> rect_y (getElementBounds el)
        \<and> rect_x (getElementBounds el) + rect_width (getElementBounds el) \<le> rx + rw
        \<and> rect_y (getElementBounds el) + rect_height (getElementBounds el) \<le> ry + rh"
    unfolding eq by simp
  have box: "pathPoints el = None \<longrightarrow>
        (el \<in> set (getElementsInRect els rx ry rw rh) \<longleftrightarrow>
           el \<in> set els \<and> \<not> isDeleted el
           \<and> rx \<le> el_x el \<and> ry \<le> el_y el
           \<and> el_x el + el_width el \<le> rx + rw \<and> el_y el + el_height el \<le> ry + rh)"
    unfolding mem by (simp add: getElementBounds_def)
  have path: "pathPoints el = Some (p # ps) \<longrightarrow>
        (el \<in> set (getElementsInRect els rx ry rw rh) \<longleftrightarrow>
           el \<in> set els \<and> \<not> isDeleted el
           \<and> list_all (\<lambda>q. rx \<le> el_x el + fst q \<and> el_x el + fst q \<le> rx + rw
                          \<and> ry \<le> el_y el + snd q \<and> el_y el + snd q \<le> ry + rh) (p # ps))"
    unfolding mem using bounds_path_inside [of el p ps rx ry rw rh] by blast
  show ?thesis using eq mem box path by blast
qed

theorem getElementsInRect_full_containment_witness:
  "pathPoints (sampleBox ''in'' 10 10 20 20) = None
   \<and> pathPoints ((sampleBox ''ln'' 10 10 0 0)\<lparr>variant := E_line [(0, 0), (200, 5)]\<rparr>)
       = Some [(0, 0), (200, 5)]
   \<and> getElementsInRect
        [sampleBox ''in'' 10 10 20 20,
         sampleBox ''part'' 90 90 20 20,
         (sampleBox ''gone'' 10 10 20 20)\<lparr>isDeleted := True\<rparr>,
         (sampleBox ''ln'' 10 10 0 0)\<lparr>variant := E_line [(0, 0), (200, 5)]\<rparr>]
        0 0 100 100
       = [sampleBox ''in'' 10 10 20 20]"
  using getElementsInRect_full_containment
    [of "[sampleBox ''in'' 10 10 20 20,
         sampleBox ''part'' 90 90 20 20,
         (sampleBox ''gone'' 10 10 20 20)\<lparr>isDeleted := True\<rparr>,
         (sampleBox ''ln'' 10 10 0 0)\<lparr>variant := E_line [(0, 0), (200, 5)]\<rparr>]"
        0 0 100 100 "sampleBox ''in'' 10 10 20 20"]
  by (simp add: sampleBox_simps getElementBounds_def pathPoints_def Math_min_def Math_max_def)

subsection \<open>Tool change\<close>

text \<open>
  C9, as the code has it. A change of the active tool, from the toolbar or by a keyboard
  shortcut, to any tool (the drawing tools included) writes the tool and nothing else:
  the selection set is unchanged.
\<close>

theorem tool_change_keeps_selection:
  "setTool t s = s\<lparr>tool := t\<rparr>
   \<and> selectedIds (setTool t s) = selectedIds s
   \<and> (targetTagName k \<noteq> ''INPUT'' \<and> targetTagName k \<noteq> ''TEXTAREA''
        \<and> targetTagName k \<noteq> ''SELECT''
        \<and> \<not> key_ctrlKey k \<and> \<not> key_metaKey k \<and> map_of toolMap (key k) = Some t
      \<longrightarrow> onKeyDown env k s = Inr (setTool t s))"
proof -
  have sp: "map_of toolMap '' '' = None" by (simp add: toolMap_def)
  have "targetTagName k \<noteq> ''INPUT'' \<and> targetTagName k \<noteq> ''TEXTAREA''
        \<and> targetTagName k \<noteq> ''SELECT''
        \<and> \<not> key_ctrlKey k \<and> \<not> key_metaKey k \<and> map_of toolMap (key k) = Some t
      \<longrightarrow> onKeyDown env k s = Inr (setTool t s)"
  proof (intro impI, elim conjE)
    assume a: "targetTagName k \<noteq> ''INPUT''" "targetTagName k \<noteq> ''TEXTAREA''"
      "targetTagName k \<noteq> ''SELECT''" "\<not> key_ctrlKey k" "\<not> key_metaKey k"
      "map_of toolMap (key k) = Some t"
    from a(6) sp have "key k \<noteq> '' ''" by auto
    with a show "onKeyDown env k s = Inr (setTool t s)"
      by (simp add: onKeyDown_def onKeyDownPlain_def Let_def)
  qed
  then show ?thesis by (simp add: setTool_def)
qed

theorem tool_change_keeps_selection_witness:
  "targetTagName (plainKey ''a'') \<noteq> ''INPUT'' \<and> targetTagName (plainKey ''a'') \<noteq> ''TEXTAREA''
   \<and> targetTagName (plainKey ''a'') \<noteq> ''SELECT''
   \<and> \<not> key_ctrlKey (plainKey ''a'') \<and> \<not> key_metaKey (plainKey ''a'')
   \<and> map_of toolMap (key (plainKey ''a'')) = Some T_arrow
   \<and> onKeyDown sampleEnv (plainKey ''a'') sampleScene = Inr (setTool T_arrow sampleScene)
   \<and> selectedIds (setTool T_arrow sampleScene) = selectedIds sampleScene"
  using tool_change_keeps_selection [of T_arrow sampleScene "plainKey ''a''" sampleEnv]
  by (simp add: plainKey_def toolMap_def)

text \<open>
  C9 as stated fails: with one element selected, choosing the rectangle tool (from the
  toolbar, or with the key \<open>r\<close>) leaves that element selected.
\<close>

theorem tool_change_clears_selection_counterexample:
  "tool sampleScene = T_select
   \<and> selectedIds sampleScene = [''a'']
   \<and> tool (setTool T_rectangle sampleScene) = T_rectangle
   \<and> selectedIds (setTool T_rectangle sampleScene) = [''a'']
   \<and> onKeyDown sampleEnv (plainKey ''r'') sampleScene = Inr (setTool T_rectangle sampleScene)"
  by (simp add: sampleScene_def setTool_def onKeyDown_def onKeyDownPlain_def plainKey_def
        toolMap_def initialState_def pushHistory_def Let_def)

subsection \<open>Moving the selection\<close>

text \<open>
  C4. During a moving gesture, after any non-empty sequence of pointer-move events whose
  last event puts the pointer at the world point \<open>p\<close>, every element with an entry in the
  original-position snapshot is at that original position plus
  \<open>(p.x - startX, p.y - startY)\<close> and every other element is unchanged. The resulting state
  is the one the last event alone produces, so it does not depend on the number or order
  of the events before it, and the interaction, with its snapshot of original positions,
  is the same as before the events. (The snapshot built at pointer-down holds, for each
  active identifier, the position its element had then: \<open>origPositionsOf_captures\<close>.)
\<close>

theorem moving_depends_only_on_last_pointer_position:
  assumes "interaction s = Moving startX startY origPositions"
    and "evs \<noteq> []"
    and "clientToWorld (clientX (last evs)) (clientY (last evs)) rect (viewport s) = p"
  shows "mouseMoves rect evs s
           = Inr (s\<lparr>elements :=
                     map (moveElement origPositions (fst p - startX) (snd p - startY))
                       (elements s)\<rparr>)
         \<and> mouseMoves rect evs s = onMouseMove rect (last evs) s
         \<and> (\<forall>s'. mouseMoves rect evs s = Inr s' \<longrightarrow>
               interaction s' = Moving startX startY origPositions
               \<and> length (elements s') = length (elements s)
               \<and> (\<forall>i < length (elements s).
                    case map_of origPositions (el_id (elements s ! i)) of
                      Some orig \<Rightarrow>
                        el_x (elements s' ! i) = fst orig + (fst p - startX)
                        \<and> el_y (elements s' ! i) = snd orig + (snd p - startY)
                        \<and> elements s' ! i
                            = (elements s ! i)\<lparr>el_x := fst orig + (fst p - startX),
                                                 el_y := snd orig + (snd p - startY)\<rparr>
                    | None \<Rightarrow> elements s' ! i = elements s ! i))"
proof -
  have a: "mouseMoves rect evs s = onMouseMove rect (last evs) s"
    by (rule mouseMoves_Moving [OF assms(1) assms(2)])
  have b: "mouseMoves rect evs s
           = Inr (s\<lparr>elements :=
                     map (moveElement origPositions (fst p - startX) (snd p - startY))
                       (elements s)\<rparr>)"
    unfolding a onMouseMove_Moving [OF assms(1)] assms(3) ..
  have c: "\<forall>s'. mouseMoves rect evs s = Inr s' \<longrightarrow>
               interaction s' = Moving startX startY origPositions
               \<and> length (elements s') = length (elements s)
               \<and> (\<forall>i < length (elements s).
                    case map_of origPositions (el_id (elements s ! i)) of
                      Some orig \<Rightarrow>
                        el_x (elements s' ! i) = fst orig + (fst p - startX)
                        \<and> el_y (elements s' ! i) = snd orig + (snd p - startY)
                        \<and> elements s' ! i
                            = (elements s ! i)\<lparr>el_x := fst orig + (fst p - startX),
                                                 el_y := snd orig + (snd p - startY)\<rparr>
                    | None \<Rightarrow> elements s' ! i = elements s ! i)"
    unfolding b using assms(1)
    by (auto simp add: moveElement_def split: option.splits)
  show ?thesis using a b c by blast
qed

theorem moving_depends_only_on_last_pointer_position_witness:
  "interaction sampleMoving = Moving 50 50 [(''a'', (0, 0)), (''b'', (200, 0))]
   \<and> [mouseAt 70 80 False, mouseAt 60 55 False] \<noteq> []
   \<and> clientToWorld (clientX (last [mouseAt 70 80 False, mouseAt 60 55 False]))
        (clientY (last [mouseAt 70 80 False, mouseAt 60 55 False])) sampleRect
        (viewport sampleMoving) = (60, 55)
   \<and> mouseMoves sampleRect [mouseAt 70 80 False, mouseAt 60 55 False] sampleMoving
       = Inr (sampleMoving\<lparr>elements := [sampleBox ''a'' 10 5 100 100,
                                          sampleBox ''b'' 210 5 100 100]\<rparr>)"
proof -
  have i: "interaction sampleMoving = Moving 50 50 [(''a'', (0, 0)), (''b'', (200, 0))]"
    by (simp add: sampleMoving_def)
  have n: "[mouseAt 70 80 False, mouseAt 60 55 False] \<noteq> []" by simp
  have p: "clientToWorld (clientX (last [mouseAt 70 80 False, mouseAt 60 55 False]))
        (clientY (last [mouseAt 70 80 False, mouseAt 60 55 False])) sampleRect
        (viewport sampleMoving) = (60, 55)"
    by (simp add: sampleMoving_def sampleTwo_def initialState_def mouseAt_def sampleRect_def
          clientToWorld_def)
  have e: "elements sampleMoving = [sampleBox ''a'' 0 0 100 100, sampleBox ''b'' 200 0 100 100]"
    by (simp add: sampleMoving_def sampleTwo_def)
  from moving_depends_only_on_last_pointer_position [OF i n p]
  have "mouseMoves sampleRect [mouseAt 70 80 False, mouseAt 60 55 False] sampleMoving
       = Inr (sampleMoving\<lparr>elements := [sampleBox ''a'' 10 5 100 100,
                                          sampleBox ''b'' 210 5 100 100]\<rparr>)"
    by (simp add: e moveElement_def sampleBox_simps sampleBox_move)
  with i n p show ?thesis by blast
qed

text \<open>
  C3 at the input where it fails. Two boxes \<open>a\<close> and \<open>b\<close> are selected; a shift-click on
  \<open>b\<close> toggles it out of the selection, which becomes \<open>{a}\<close>, but the snapshot of original
  positions holds both \<open>a\<close> and \<open>b\<close>, and the next pointer-move translates \<open>b\<close> as well.
  The set of moved elements is the selection before the click joined with the clicked
  element, not the selection after the click. The lemma \<open>select_click_semantics\<close> above
  gives both sets for every click that hits an element: they agree except for a
  shift-click on an element that is already selected.
\<close>

theorem shift_click_on_selected_element_moves_it_deselected:
  "handleMouseDown sampleEnv sampleRect ''n'' 0 (mouseAt 250 50 True) sampleTwo
     = Inr (sampleTwo\<lparr>selectedIds := [''a''],
                      interaction := Moving 250 50 [(''a'', (0, 0)), (''b'', (200, 0))]\<rparr>)
   \<and> andThen (handleMouseDown sampleEnv sampleRect ''n'' 0 (mouseAt 250 50 True) sampleTwo)
        (mouseMoves sampleRect [mouseAt 260 50 True])
     = Inr (sampleTwo\<lparr>selectedIds := [''a''],
                      interaction := Moving 250 50 [(''a'', (0, 0)), (''b'', (200, 0))],
                      elements := [sampleBox ''a'' 10 0 100 100, sampleBox ''b'' 210 0 100 100]\<rparr>)"
  unfolding sampleTwo_down
  by (simp add: andThen_def mouseMoves_single onMouseMove_def Let_def moveElement_def
        sampleTwo_def initialState_def mouseAt_def sampleRect_def clientToWorld_def
        sampleBox_simps sampleBox_move)

subsection \<open>Drawing gestures\<close>

text \<open>
  C5. A box-like drawing gesture (rectangle, ellipse or diamond tool) with pointer-down at
  the world point \<open>(x1, y1)\<close> and its last pointer-move at \<open>(x2, y2)\<close> (the pointer-down
  point itself when the pointer never moved) commits the element created at
  pointer-down with origin \<open>(min x1 x2, min y1 y2)\<close> and size \<open>(|x2 - x1|, |y2 - y1|)\<close>,
  selects it and pushes the history, if and only if \<open>|x2 - x1| > 2\<close> or \<open>|y2 - y1| > 2\<close>;
  otherwise the scene, the selection and the history are unchanged. In both cases the
  pending element is dropped and the interaction is idle.
\<close>

theorem box_drawing_commits_iff_large:
  assumes "editingTextId s = None \<or> editingTextId s = Some []"
    and "tool s = T_rectangle \<or> tool s = T_ellipse \<or> tool s = T_diamond"
    and "button down = 0" and "\<not> isSpace s"
    and "clientToWorld (clientX down) (clientY down) rect (viewport s) = (x1, y1)"
    and "(x2, y2) = (if moves = [] then (x1, y1)
                     else clientToWorld (clientX (last moves)) (clientY (last moves)) rect
                            (viewport s))"
  shows "\<exists>el0 s'.
           createElement newId newSeed (tool s) x1 y1 (properties s) = Inr el0
           \<and> gesture env rect newId newSeed down moves s = Inr s'
           \<and> drawingEl s' = None \<and> interaction s' = Idle
           \<and> (if \<bar>x2 - x1\<bar> > 2 \<or> \<bar>y2 - y1\<bar> > 2
               then elements s'
                      = elements s @ [el0\<lparr>el_x := min x1 x2, el_y := min y1 y2,
                                          el_width := \<bar>x2 - x1\<bar>,
                                          el_height := \<bar>y2 - y1\<bar>\<rparr>]
                    \<and> selectedIds s' = [newId]
                    \<and> history s' = history (pushHistory (elements s') s)
               else elements s' = elements s
                    \<and> selectedIds s' = selectedIds s
                    \<and> history s' = history s)"
proof -
  from handleMouseDown_shape [OF assms(1) _ assms(3,4,5), of newId newSeed env] assms(2)
  obtain el0 where c: "createElement newId newSeed (tool s) x1 y1 (properties s) = Inr el0"
    and d: "handleMouseDown env rect newId newSeed down s
               = Inr (s\<lparr>drawingEl := Some el0, interaction := Drawing x1 y1\<rparr>)"
    by blast
  let ?s0 = "s\<lparr>drawingEl := Some el0, interaction := Drawing x1 y1\<rparr>"
  note b = createElement_box [OF assms(2) c]
  let ?el = "el0\<lparr>el_x := min x1 x2, el_y := min y1 y2,
                  el_width := \<bar>x2 - x1\<bar>, el_height := \<bar>y2 - y1\<bar>\<rparr>"
  have m: "mouseMoves rect moves ?s0 = Inr (?s0\<lparr>drawingEl := Some ?el\<rparr>)"
  proof (cases "moves = []")
    case True
    with assms(6) have "x2 = x1" "y2 = y1" by simp_all
    moreover have "el0\<lparr>el_x := x1, el_y := y1, el_width := 0, el_height := 0\<rparr> = el0"
      using b by simp
    ultimately show ?thesis using True by (simp add: mouseMoves_Nil)
  next
    case False
    with assms(6)
    have w: "clientToWorld (clientX (last moves)) (clientY (last moves)) rect (viewport ?s0)
               = (x2, y2)" by simp
    have i0: "interaction ?s0 = Drawing x1 y1" and d0: "drawingEl ?s0 = Some el0" by simp_all
    have v0: "variant el0 = E_rectangle \<or> variant el0 = E_ellipse \<or> variant el0 = E_diamond"
      using b by simp
    show ?thesis
      unfolding mouseMoves_Drawing_box [OF i0 d0 v0 False]
        onMouseMove_Drawing_box [OF i0 d0 v0 w] by simp
  qed
  have pp: "pathPoints ?el = None" using b by (simp add: pathPoints_def)
  have valid: "isValid ?el \<longleftrightarrow> \<bar>x2 - x1\<bar> > 2 \<or> \<bar>y2 - y1\<bar> > 2"
    by (simp add: isValid_def pp)
  have g: "gesture env rect newId newSeed down moves s
             = Inr (onMouseUp (?s0\<lparr>drawingEl := Some ?el\<rparr>))"
    by (simp add: gesture_def d m andThen_Inr)
  have idn: "el_id ?el = newId" using b by simp
  show ?thesis
  proof (cases "\<bar>x2 - x1\<bar> > 2 \<or> \<bar>y2 - y1\<bar> > 2")
    case True
    then show ?thesis
      using c g valid idn
      by (simp add: onMouseUp_def Let_def pushHistory_def del: abs_if)
  next
    case False
    then show ?thesis
      using c g valid
      by (simp add: onMouseUp_def Let_def del: abs_if)
  qed
qed

theorem box_drawing_commits_iff_large_witness:
  "(editingTextId (sampleDraw T_rectangle) = None
      \<or> editingTextId (sampleDraw T_rectangle) = Some [])
   \<and> (tool (sampleDraw T_rectangle) = T_rectangle \<or> tool (sampleDraw T_rectangle) = T_ellipse
      \<or> tool (sampleDraw T_rectangle) = T_diamond)
   \<and> button (mouseAt 50 50 False) = 0
   \<and> \<not> isSpace (sampleDraw T_rectangle)
   \<and> clientToWorld (clientX (mouseAt 50 50 False)) (clientY (mouseAt 50 50 False)) sampleRect
        (viewport (sampleDraw T_rectangle)) = (50, 50)
   \<and> (\<exists>s'. gesture sampleEnv sampleRect ''n'' 7 (mouseAt 50 50 False)
               [mouseAt 30 20 False, mouseAt 10 10 False] (sampleDraw T_rectangle) = Inr s'
          \<and> elements s' = [sampleBox ''n'' 10 10 40 40]
          \<and> selectedIds s' = [''n''])
   \<and> (\<exists>s'. gesture sampleEnv sampleRect ''n'' 7 (mouseAt 50 50 False)
               [mouseAt 51 51 False] (sampleDraw T_rectangle) = Inr s'
          \<and> elements s' = [])"
proof -
  let ?s = "sampleDraw T_rectangle"
  have h1: "editingTextId ?s = None \<or> editingTextId ?s = Some []"
    by (simp add: sampleDraw_simps)
  have h2: "tool ?s = T_rectangle \<or> tool ?s = T_ellipse \<or> tool ?s = T_diamond"
    by (simp add: sampleDraw_simps)
  have h3: "button (mouseAt 50 50 False) = 0" by (simp add: mouseAt_def)
  have h4: "\<not> isSpace ?s" by (simp add: sampleDraw_simps)
  have h5: "clientToWorld (clientX (mouseAt 50 50 False)) (clientY (mouseAt 50 50 False))
              sampleRect (viewport ?s) = (50, 50)"
    by (simp add: sampleDraw_simps sample_world)
  have h6: "(10, 10) = (if [mouseAt 30 20 False, mouseAt 10 10 False] = [] then (50, 50)
              else clientToWorld (clientX (last [mouseAt 30 20 False, mouseAt 10 10 False]))
                     (clientY (last [mouseAt 30 20 False, mouseAt 10 10 False])) sampleRect
                     (viewport ?s))"
    by (simp add: sampleDraw_simps sample_world)
  have h7: "(51, 51) = (if [mouseAt 51 51 False] = [] then (50, 50)
              else clientToWorld (clientX (last [mouseAt 51 51 False]))
                     (clientY (last [mouseAt 51 51 False])) sampleRect (viewport ?s))"
    by (simp add: sampleDraw_simps sample_world)
  have c: "createElement ''n'' 7 T_rectangle 50 50 sampleProps
             = Inr (createBase ''n'' 7 50 50 sampleProps E_rectangle)"
    by (simp add: createElement_def)
  have big: "\<exists>s'. gesture sampleEnv sampleRect ''n'' 7 (mouseAt 50 50 False)
               [mouseAt 30 20 False, mouseAt 10 10 False] ?s = Inr s'
          \<and> elements s' = [sampleBox ''n'' 10 10 40 40] \<and> selectedIds s' = [''n'']"
    using box_drawing_commits_iff_large [OF h1 h2 h3 h4 h5 h6, of "''n''" 7 sampleEnv]
    by (auto simp add: c sampleDraw_simps sampleBox_def createBase_def)
  have small: "\<exists>s'. gesture sampleEnv sampleRect ''n'' 7 (mouseAt 50 50 False)
               [mouseAt 51 51 False] ?s = Inr s' \<and> elements s' = []"
    using box_drawing_commits_iff_large [OF h1 h2 h3 h4 h5 h7, of "''n''" 7 sampleEnv]
    by (auto simp add: c sampleDraw_simps)
  show ?thesis using h1 h2 h3 h4 h5 big small by blast
qed

text \<open>
  C6, as the code has it. A line or arrow drawing gesture with at least one pointer-move
  event between pointer-down and pointer-up commits the element with exactly two points,
  \<open>(0, 0)\<close> and the last pointer position relative to the pointer-down point, selects it
  and pushes the history. A pointer-down followed at once by pointer-up leaves the
  pending element with its single initial point; it fails the two-point check and is
  discarded, with the scene, selection and history unchanged.
\<close>

theorem line_arrow_committed_after_a_move:
  assumes "editingTextId s = None \<or> editingTextId s = Some []"
    and "tool s = T_arrow \<or> tool s = T_line"
    and "button down = 0" and "\<not> isSpace s"
    and "clientToWorld (clientX down) (clientY down) rect (viewport s) = (x1, y1)"
    and "moves \<noteq> [] \<longrightarrow>
           clientToWorld (clientX (last moves)) (clientY (last moves)) rect (viewport s)
             = (x2, y2)"
  shows "\<exists>el0 s'.
           createElement newId newSeed (tool s) x1 y1 (properties s) = Inr el0
           \<and> pathPoints el0 = Some [(0, 0)]
           \<and> gesture env rect newId newSeed down moves s = Inr s'
           \<and> drawingEl s' = None \<and> interaction s' = Idle
           \<and> (if moves \<noteq> []
               then elements s'
                      = elements s
                        @ [el0\<lparr>variant :=
                                 (if tool s = T_arrow
                                  then E_arrow [(0, 0), (x2 - x1, y2 - y1)]
                                  else E_line [(0, 0), (x2 - x1, y2 - y1)])\<rparr>]
                    \<and> selectedIds s' = [newId]
                    \<and> history s' = history (pushHistory (elements s') s)
               else elements s' = elements s
                    \<and> selectedIds s' = selectedIds s
                    \<and> history s' = history s)"
proof -
  from handleMouseDown_shape [OF assms(1) _ assms(3,4,5), of newId newSeed env] assms(2)
  obtain el0 where c: "createElement newId newSeed (tool s) x1 y1 (properties s) = Inr el0"
    and d: "handleMouseDown env rect newId newSeed down s
               = Inr (s\<lparr>drawingEl := Some el0, interaction := Drawing x1 y1\<rparr>)"
    by blast
  let ?s0 = "s\<lparr>drawingEl := Some el0, interaction := Drawing x1 y1\<rparr>"
  note b = createElement_path [OF assms(2) c]
  have i0: "interaction ?s0 = Drawing x1 y1" and d0: "drawingEl ?s0 = Some el0" by simp_all
  show ?thesis
  proof (cases "moves = []")
    case True
    have "\<not> isValid el0" using b by (simp add: isValid_def)
    then have "gesture env rect newId newSeed down moves s
                 = Inr (s\<lparr>drawingEl := None, interaction := Idle\<rparr>)"
      using True by (simp add: gesture_def d mouseMoves_Nil andThen_Inr onMouseUp_def Let_def)
    then show ?thesis using c b True by simp
  next
    case False
    with assms(6)
    have w: "clientToWorld (clientX (last moves)) (clientY (last moves)) rect (viewport ?s0)
               = (x2, y2)" by simp
    let ?v = "if tool s = T_arrow then E_arrow [(0, 0), (x2 - x1, y2 - y1)]
              else E_line [(0, 0), (x2 - x1, y2 - y1)]"
    let ?el = "el0\<lparr>variant := ?v\<rparr>"
    have v0: "variant el0 = E_arrow [(0, 0)] \<or> variant el0 = E_line [(0, 0)]"
      using b by simp
    have m: "mouseMoves rect moves ?s0 = Inr (?s0\<lparr>drawingEl := Some ?el\<rparr>)"
    proof (cases "tool s = T_arrow")
      case True
      then have va: "variant el0 = E_arrow [(0, 0)]" using b by simp
      show ?thesis
        unfolding mouseMoves_Drawing_path [OF i0 d0 v0 False]
          onMouseMove_Drawing_path(1) [OF i0 d0 w va]
        using True b by simp
    next
      case F: False
      then have vl: "variant el0 = E_line [(0, 0)]" using b by simp
      show ?thesis
        unfolding mouseMoves_Drawing_path [OF i0 d0 v0 False]
          onMouseMove_Drawing_path(2) [OF i0 d0 w vl]
        using F b by simp
    qed
    have valid: "isValid ?el" by (simp add: isValid_def pathPoints_def)
    have idn: "el_id ?el = newId" using b by simp
    have g: "gesture env rect newId newSeed down moves s
             = Inr (onMouseUp (?s0\<lparr>drawingEl := Some ?el\<rparr>))"
      by (simp add: gesture_def d m andThen_Inr)
    have up: "onMouseUp (?s0\<lparr>drawingEl := Some ?el\<rparr>)
                = (pushHistory (elements s @ [?el]) (?s0\<lparr>elements := elements s @ [?el]\<rparr>))
                    \<lparr>selectedIds := [newId], drawingEl := None, interaction := Idle\<rparr>"
      using valid idn by (simp add: onMouseUp_def pushHistory_def Let_def)
    show ?thesis
      using c b False unfolding g up
      by (simp add: pushHistory_def Let_def)
  qed
qed

theorem line_arrow_committed_after_a_move_witness:
  "(editingTextId (sampleDraw T_arrow) = None \<or> editingTextId (sampleDraw T_arrow) = Some [])
   \<and> (tool (sampleDraw T_arrow) = T_arrow \<or> tool (sampleDraw T_arrow) = T_line)
   \<and> button (mouseAt 50 50 False) = 0
   \<and> \<not> isSpace (sampleDraw T_arrow)
   \<and> clientToWorld (clientX (mouseAt 50 50 False)) (clientY (mouseAt 50 50 False)) sampleRect
        (viewport (sampleDraw T_arrow)) = (50, 50)
   \<and> (\<exists>s'. gesture sampleEnv sampleRect ''n'' 7 (mouseAt 50 50 False)
               [mouseAt 50 50 False] (sampleDraw T_arrow) = Inr s'
          \<and> elements s' = [createBase ''n'' 7 50 50 sampleProps (E_arrow [(0, 0), (0, 0)])]
          \<and> selectedIds s' = [''n''])
   \<and> (\<exists>s'. gesture sampleEnv sampleRect ''n'' 7 (mouseAt 50 50 False) []
               (sampleDraw T_arrow) = Inr s'
          \<and> elements s' = [])"
proof -
  let ?s = "sampleDraw T_arrow"
  have h1: "editingTextId ?s = None \<or> editingTextId ?s = Some []"
    by (simp add: sampleDraw_simps)
  have h2: "tool ?s = T_arrow \<or> tool ?s = T_line"
    by (simp add: sampleDraw_simps)
  have h3: "button (mouseAt 50 50 False) = 0" by (simp add: mouseAt_def)
  have h4: "\<not> isSpace ?s" by (simp add: sampleDraw_simps)
  have h5: "clientToWorld (clientX (mouseAt 50 50 False)) (clientY (mouseAt 50 50 False))
              sampleRect (viewport ?s) = (50, 50)"
    by (simp add: sampleDraw_simps sample_world)
  have h6: "[mouseAt 50 50 False] \<noteq> [] \<longrightarrow>
              clientToWorld (clientX (last [mouseAt 50 50 False]))
                (clientY (last [mouseAt 50 50 False])) sampleRect (viewport ?s) = (50, 50)"
    by (simp add: sampleDraw_simps sample_world)
  have h7: "([] :: MouseEvent list) \<noteq> [] \<longrightarrow>
              clientToWorld (clientX (last [])) (clientY (last [])) sampleRect (viewport ?s)
                = (50, 50)"
    by simp
  have c: "createElement ''n'' 7 T_arrow 50 50 sampleProps
             = Inr (createBase ''n'' 7 50 50 sampleProps (E_arrow [(0, 0)]))"
    by (simp add: createElement_def)
  have moved: "\<exists>s'. gesture sampleEnv sampleRect ''n'' 7 (mouseAt 50 50 False)
               [mouseAt 50 50 False] ?s = Inr s'
          \<and> elements s' = [createBase ''n'' 7 50 50 sampleProps (E_arrow [(0, 0), (0, 0)])]
          \<and> selectedIds s' = [''n'']"
    using line_arrow_committed_after_a_move [OF h1 h2 h3 h4 h5 h6, of "''n''" 7 sampleEnv]
    by (auto simp add: c sampleDraw_simps createBase_def)
  have still: "\<exists>s'. gesture sampleEnv sampleRect ''n'' 7 (mouseAt 50 50 False) [] ?s = Inr s'
          \<and> elements s' = []"
    using line_arrow_committed_after_a_move [OF h1 h2 h3 h4 h5 h7, of "''n''" 7 sampleEnv]
    by (auto simp add: c sampleDraw_simps)
  show ?thesis using h1 h2 h3 h4 h5 moved still by blast
qed

text \<open>
  C6 as stated fails: with the arrow tool, pointer-down followed at once by pointer-up
  leaves a pending element of one point and commits nothing.
\<close>

theorem line_arrow_click_without_move_counterexample:
  "handleMouseDown sampleEnv sampleRect ''n'' 7 (mouseAt 50 50 False) (sampleDraw T_arrow)
     = Inr ((sampleDraw T_arrow)
              \<lparr>drawingEl := Some (createBase ''n'' 7 50 50 sampleProps (E_arrow [(0, 0)])),
               interaction := Drawing 50 50\<rparr>)
   \<and> gesture sampleEnv sampleRect ''n'' 7 (mouseAt 50 50 False) [] (sampleDraw T_arrow)
     = Inr (sampleDraw T_arrow)
   \<and> elements (sampleDraw T_arrow) = []"
proof -
  have d: "handleMouseDown sampleEnv sampleRect ''n'' 7 (mouseAt 50 50 False) (sampleDraw T_arrow)
     = Inr ((sampleDraw T_arrow)
              \<lparr>drawingEl := Some (createBase ''n'' 7 50 50 sampleProps (E_arrow [(0, 0)])),
               interaction := Drawing 50 50\<rparr>)"
    by (simp add: handleMouseDown_def Let_def sampleDraw_simps clientToWorld_def
          sampleRect_def mouseAt_def createElement_def)
  have g: "gesture sampleEnv sampleRect ''n'' 7 (mouseAt 50 50 False) [] (sampleDraw T_arrow)
     = Inr (sampleDraw T_arrow)"
    unfolding gesture_def d
    by (simp add: andThen_def mouseMoves_def onMouseUp_def isValid_def pathPoints_def
          createBase_def sampleDraw_def initialState_def)
  show ?thesis using d g by (simp add: sampleDraw_simps)
qed

end
